theory Spec2Isabelle
  imports Complex_Main "HOL-Library.Word"
begin

unbundle bit_operations_syntax

section \<open>Numeric values\<close>

text \<open>
  The arrays of \<^verbatim>\<open>photometry.py\<close> hold IEEE double precision numbers. A value is
  modelled as a real number or one of the three special values; rounding and overflow
  of the finite values are not modelled (a finite result is the exact real result), the
  special values follow IEEE 754 as numpy applies it (a comparison with \<open>NaN\<close> is
  false, \<open>inf - inf\<close>, \<open>0 * inf\<close> and \<open>0 / 0\<close> are \<open>NaN\<close>, a division of a non-zero
  value by zero is infinite and does not raise).
\<close>

datatype float64 = Fin real | PInf | NInf | NaN

datatype py_error =
    NameError string
  | ZeroDivisionError
  | IndexError
  | ValueError
  | TypeError
  | EngineError

fun isfinite :: "float64 \<Rightarrow> bool" where
  "isfinite (Fin _) = True"
| "isfinite _ = False"

fun isnan :: "float64 \<Rightarrow> bool" where
  "isnan NaN = True"
| "isnan _ = False"

fun fneg :: "float64 \<Rightarrow> float64" where
  "fneg (Fin a) = Fin (- a)"
| "fneg PInf = NInf"
| "fneg NInf = PInf"
| "fneg NaN = NaN"

fun fabs :: "float64 \<Rightarrow> float64" where
  "fabs (Fin a) = Fin \<bar>a\<bar>"
| "fabs PInf = PInf"
| "fabs NInf = PInf"
| "fabs NaN = NaN"

fun fadd :: "float64 \<Rightarrow> float64 \<Rightarrow> float64" where
  "fadd (Fin a) (Fin b) = Fin (a + b)"
| "fadd NaN _ = NaN"
| "fadd _ NaN = NaN"
| "fadd PInf NInf = NaN"
| "fadd NInf PInf = NaN"
| "fadd PInf _ = PInf"
| "fadd _ PInf = PInf"
| "fadd NInf _ = NInf"
| "fadd _ NInf = NInf"

definition fsub :: "float64 \<Rightarrow> float64 \<Rightarrow> float64" where
  "fsub a b = fadd a (fneg b)"

text \<open>The sign of a value: \<open>1\<close>, \<open>0\<close> or \<open>-1\<close>; \<open>NaN\<close> has none.\<close>

fun fsign :: "float64 \<Rightarrow> int" where
  "fsign (Fin a) = (if a > 0 then 1 else if a < 0 then -1 else 0)"
| "fsign PInf = 1"
| "fsign NInf = -1"
| "fsign NaN = 0"

definition inf_of_sign :: "int \<Rightarrow> float64" where
  "inf_of_sign s = (if s > 0 then PInf else if s < 0 then NInf else NaN)"

fun fmul :: "float64 \<Rightarrow> float64 \<Rightarrow> float64" where
  "fmul (Fin a) (Fin b) = Fin (a * b)"
| "fmul NaN _ = NaN"
| "fmul _ NaN = NaN"
| "fmul a b = inf_of_sign (fsign a * fsign b)"

text \<open>
  Division of arrays: a zero divisor gives an infinity of the sign of the dividend
  (\<open>NaN\<close> for \<open>0 / 0\<close>); every zero divisor of the program is a positive zero (the
  result of \<open>hypot\<close>), so the sign of the zero is not modelled.
\<close>

fun fdiv :: "float64 \<Rightarrow> float64 \<Rightarrow> float64" where
  "fdiv NaN _ = NaN"
| "fdiv _ NaN = NaN"
| "fdiv (Fin a) (Fin b) = (if b = 0 then inf_of_sign (fsign (Fin a)) else Fin (a / b))"
| "fdiv (Fin a) _ = Fin 0"
| "fdiv a (Fin b) = inf_of_sign (fsign a * (if b < 0 then -1 else 1))"
| "fdiv _ _ = NaN"

fun flt :: "float64 \<Rightarrow> float64 \<Rightarrow> bool" where
  "flt (Fin a) (Fin b) = (a < b)"
| "flt NaN _ = False"
| "flt _ NaN = False"
| "flt _ NInf = False"
| "flt PInf _ = False"
| "flt _ _ = True"

definition fgt :: "float64 \<Rightarrow> float64 \<Rightarrow> bool" where
  "fgt a b = flt b a"

fun fle :: "float64 \<Rightarrow> float64 \<Rightarrow> bool" where
  "fle (Fin a) (Fin b) = (a \<le> b)"
| "fle NaN _ = False"
| "fle _ NaN = False"
| "fle NInf _ = True"
| "fle _ PInf = True"
| "fle _ _ = False"

definition fge :: "float64 \<Rightarrow> float64 \<Rightarrow> bool" where
  "fge a b = fle b a"

text \<open>\<^verbatim>\<open>x**n\<close> for the integer exponents of \<^verbatim>\<open>make_series\<close>; \<^verbatim>\<open>x**0\<close> is 1 for every x.\<close>

fun fpow :: "float64 \<Rightarrow> nat \<Rightarrow> float64" where
  "fpow x 0 = Fin 1"
| "fpow x (Suc n) = fmul x (fpow x n)"

fun flog10 :: "float64 \<Rightarrow> float64" where
  "flog10 (Fin a) = (if a > 0 then Fin (log 10 a) else if a = 0 then NInf else NaN)"
| "flog10 PInf = PInf"
| "flog10 NInf = NaN"
| "flog10 NaN = NaN"

fun fsqrt :: "float64 \<Rightarrow> float64" where
  "fsqrt (Fin a) = (if a \<ge> 0 then Fin (sqrt a) else NaN)"
| "fsqrt PInf = PInf"
| "fsqrt NInf = NaN"
| "fsqrt NaN = NaN"

text \<open>\<^verbatim>\<open>np.hypot\<close>: infinite when either argument is, also beside a \<open>NaN\<close>.\<close>

fun fhypot :: "float64 \<Rightarrow> float64 \<Rightarrow> float64" where
  "fhypot (Fin a) (Fin b) = Fin (sqrt (a * a + b * b))"
| "fhypot PInf _ = PInf"
| "fhypot NInf _ = PInf"
| "fhypot _ PInf = PInf"
| "fhypot _ NInf = PInf"
| "fhypot _ _ = NaN"

text \<open>\<^verbatim>\<open>np.sum\<close> and \<^verbatim>\<open>np.mean\<close> of a one-dimensional array (the mean of no values is \<open>NaN\<close>).\<close>

definition fsum :: "float64 list \<Rightarrow> float64" where
  "fsum xs = foldl fadd (Fin 0) xs"

definition fmean :: "float64 list \<Rightarrow> float64" where
  "fmean xs = fdiv (fsum xs) (Fin (real (length xs)))"

text \<open>The truth value of a Python float: false exactly for zero (\<open>NaN\<close> is true).\<close>

definition truthy :: "float64 \<Rightarrow> bool" where
  "truthy t = (t \<noteq> Fin 0)"

section \<open>Background estimation: \<^verbatim>\<open>get_background\<close>\<close>

type_synonym image = "float64 list list"
type_synonym mask = "bool list list"

text \<open>
  The two background estimators are collaborators: \<^verbatim>\<open>sep.Background\<close> with its maps
  \<^verbatim>\<open>back()\<close> and \<^verbatim>\<open>rms()\<close>, and \<^verbatim>\<open>photutils.Background2D\<close> with \<^verbatim>\<open>background\<close> and
  \<^verbatim>\<open>background_rms\<close>. Either may raise.
\<close>

record bg_estimators =
  sep_Background :: "image \<Rightarrow> mask option \<Rightarrow> nat \<Rightarrow> nat \<Rightarrow> py_error + (image \<times> image)"
  photutils_Background2D :: "image \<Rightarrow> nat \<Rightarrow> mask option \<Rightarrow> py_error + (image \<times> image)"

text \<open>
  The names bound at module level of \<^verbatim>\<open>photometry.py\<close> (imports, lambdas and
  functions), which a name that is not a local variable is looked up in.
\<close>

definition module_globals :: "string list" where
  "module_globals =
     [''absolute_import'', ''division'', ''print_function'', ''unicode_literals'',
      ''os'', ''posixpath'', ''shutil'', ''tempfile'', ''np'', ''WCS'', ''fits'',
      ''mad_std'', ''Table'', ''warnings'', ''FITSFixedWarning'', ''sep'', ''photutils'',
      ''sm'', ''htm'', ''cv2'', ''fftconvolve'', ''dilate'', ''convolve'',
      ''make_kernel'', ''get_objects_sep'', ''get_objects_sextractor'', ''make_series'',
      ''match'', ''get_background'']"

datatype pyval = Array image | ModuleObject string

text \<open>Reading a name: the local variables first, then the module's names, else \<^verbatim>\<open>NameError\<close>.\<close>

definition load_name :: "(string \<times> pyval) list \<Rightarrow> string \<Rightarrow> py_error + pyval" where
  "load_name locals n =
     (case map_of locals n of
        Some v \<Rightarrow> Inr v
      | None \<Rightarrow> if n \<in> set module_globals then Inr (ModuleObject n) else Inl (NameError n))"

datatype bg_result = Back pyval | BackAndRms pyval pyval

text \<open>
  \<^verbatim>\<open>get_background(image, mask, method, size, get_rms)\<close>. Both branches bind the
  local names \<^verbatim>\<open>back\<close> and \<^verbatim>\<open>backrms\<close>; the return statements read \<^verbatim>\<open>back\<close> and,
  for \<^verbatim>\<open>get_rms\<close>, \<^verbatim>\<open>back_rms\<close>.
\<close>

definition get_background ::
  "bg_estimators \<Rightarrow> image \<Rightarrow> mask option \<Rightarrow> string \<Rightarrow> nat \<Rightarrow> bool \<Rightarrow> py_error + bg_result" where
  "get_background est img msk method sz get_rms =
     (case (if method = ''sep'' then sep_Background est img msk sz sz
            else photutils_Background2D est img sz msk) of
        Inl e \<Rightarrow> Inl e
      | Inr (back, backrms) \<Rightarrow>
          (let locals = [(''image'', Array img), (''back'', Array back), (''backrms'', Array backrms)] in
           if get_rms then
             (case load_name locals ''back'' of
                Inl e \<Rightarrow> Inl e
              | Inr v1 \<Rightarrow>
                  (case load_name locals ''back_rms'' of
                     Inl e \<Rightarrow> Inl e
                   | Inr v2 \<Rightarrow> Inr (BackAndRms v1 v2)))
           else
             (case load_name locals ''back'' of
                Inl e \<Rightarrow> Inl e
              | Inr v1 \<Rightarrow> Inr (Back v1))))"

text \<open>A flat estimator for concrete runs: level 100, noise 5, on every pixel.\<close>

definition flat_estimators :: bg_estimators where
  "flat_estimators =
     \<lparr> sep_Background = (\<lambda>img m bw bh. Inr (map (map (\<lambda>_. Fin 100)) img, map (map (\<lambda>_. Fin 5)) img)),
       photutils_Background2D = (\<lambda>img sz m. Inr (map (map (\<lambda>_. Fin 100)) img, map (map (\<lambda>_. Fin 5)) img)) \<rparr>"

section \<open>Zero-point fit: \<^verbatim>\<open>make_series\<close> and \<^verbatim>\<open>match\<close>\<close>

subsection \<open>Array operations\<close>

text \<open>
  An elementwise operation of two one-dimensional arrays with numpy's broadcasting:
  equal lengths, or one side of length one (a Python scalar behaves as such an
  array); any other pair of lengths raises \<^verbatim>\<open>ValueError\<close>.
\<close>

definition bcast2 ::
  "(float64 \<Rightarrow> float64 \<Rightarrow> float64) \<Rightarrow> float64 list \<Rightarrow> float64 list \<Rightarrow> py_error + float64 list" where
  "bcast2 f xs ys =
     (if length xs = length ys then Inr (map2 f xs ys)
      else if length xs = 1 then Inr (map (f (hd xs)) ys)
      else if length ys = 1 then Inr (map (\<lambda>a. f a (hd ys)) xs)
      else Inl ValueError)"

text \<open>Running a list of computations in order, stopping at the first that raises.\<close>

fun sequence_err :: "(py_error + 'a) list \<Rightarrow> py_error + 'a list" where
  "sequence_err [] = Inr []"
| "sequence_err (Inl e # _) = Inl e"
| "sequence_err (Inr v # rest) =
     (case sequence_err rest of Inl e \<Rightarrow> Inl e | Inr vs \<Rightarrow> Inr (v # vs))"

text \<open>Indexing \<^verbatim>\<open>xs[idx]\<close> with a boolean mask, and \<^verbatim>\<open>np.sum(idx)\<close>.\<close>

definition select :: "bool list \<Rightarrow> 'a list \<Rightarrow> 'a list" where
  "select idx xs = map snd (filter fst (zip idx xs))"

definition count_true :: "bool list \<Rightarrow> nat" where
  "count_true idx = length (filter (\<lambda>b. b) idx)"

text \<open>Indexing \<^verbatim>\<open>xs[oidx]\<close> with an array of indices; an index out of range raises.\<close>

definition take_idx :: "'a list \<Rightarrow> nat list \<Rightarrow> py_error + 'a list" where
  "take_idx xs js =
     (if list_all (\<lambda>j. j < length xs) js then Inr (map (\<lambda>j. xs ! j) js) else Inl IndexError)"

text \<open>\<^verbatim>\<open>.filled(fill_value=np.nan)\<close> of a masked array: a masked entry is \<open>None\<close>.\<close>

definition filled :: "float64 option list \<Rightarrow> float64 list" where
  "filled xs = map (\<lambda>v. case v of None \<Rightarrow> NaN | Some a \<Rightarrow> a) xs"

subsection \<open>\<^verbatim>\<open>make_series\<close>\<close>

text \<open>
  \<^verbatim>\<open>make_series(mul, x, y, order, zero)\<close> with \<^verbatim>\<open>sum=False\<close> (the only use in the
  module): the list of the columns \<^verbatim>\<open>ones_like(x)*mul\<close> and then
  \<^verbatim>\<open>mul * x**(i-j) * y**j\<close> for \<^verbatim>\<open>i\<close> from 1 to \<^verbatim>\<open>order\<close> and \<^verbatim>\<open>j\<close> from 0 to \<^verbatim>\<open>i\<close>.
  \<^verbatim>\<open>x\<close> and \<^verbatim>\<open>y\<close> are one-dimensional (\<^verbatim>\<open>np.atleast_1d\<close>); a scalar \<^verbatim>\<open>mul\<close> is the
  array of that one value.
\<close>

definition series_term :: "float64 list \<Rightarrow> float64 list \<Rightarrow> float64 list \<Rightarrow> nat \<Rightarrow> nat \<Rightarrow> py_error + float64 list" where
  "series_term mul x y i j =
     (case bcast2 fmul mul (map (\<lambda>a. fpow a (i - j)) x) of
        Inl e \<Rightarrow> Inl e
      | Inr t \<Rightarrow> bcast2 fmul t (map (\<lambda>b. fpow b j) y))"

definition make_series ::
  "float64 list \<Rightarrow> float64 list \<Rightarrow> float64 list \<Rightarrow> int \<Rightarrow> bool \<Rightarrow> py_error + float64 list list" where
  "make_series mul x y order zero_col =
     sequence_err
       ((if zero_col then [bcast2 fmul (map (\<lambda>_. Fin 1) x) mul] else []) @
        concat (map (\<lambda>i. map (\<lambda>j. series_term mul x y i j) [0..<Suc i]) [1..<Suc (nat order)]))"

text \<open>
  \<^verbatim>\<open>np.vstack(X).T\<close>: the columns must have one length, the result is the list of
  the rows (one per point). The number of columns is kept beside the rows, as
  \<^verbatim>\<open>X.shape[1]\<close>.
\<close>

fun rows_of_cols :: "'a list list \<Rightarrow> 'a list list" where
  "rows_of_cols [] = []"
| "rows_of_cols [c] = map (\<lambda>v. [v]) c"
| "rows_of_cols (c # cs) = map2 (#) c (rows_of_cols cs)"

definition vstack_T :: "float64 list list \<Rightarrow> py_error + float64 list list" where
  "vstack_T cols =
     (case cols of
        [] \<Rightarrow> Inl ValueError
      | c # cs \<Rightarrow>
          if list_all (\<lambda>d. length d = length c) cs then Inr (rows_of_cols cols)
          else Inl ValueError)"

text \<open>
  \<^verbatim>\<open>np.sum(X*params, axis=1)\<close> for \<^verbatim>\<open>X\<close> of \<^verbatim>\<open>p\<close> columns: the product broadcasts
  each row against the coefficients.
\<close>

definition bmul :: "float64 list \<Rightarrow> float64 list \<Rightarrow> float64 list" where
  "bmul row params =
     (if length row = length params then map2 fmul row params
      else if length row = 1 then map (fmul (hd row)) params
      else map (\<lambda>a. fmul a (hd params)) row)"

definition X_dot :: "nat \<Rightarrow> float64 list list \<Rightarrow> float64 list \<Rightarrow> py_error + float64 list" where
  "X_dot p X params =
     (if p = length params \<or> p = 1 \<or> length params = 1
      then Inr (map (\<lambda>row. fsum (bmul row params)) X)
      else Inl ValueError)"

subsection \<open>The fit\<close>

text \<open>
  The collaborators of \<^verbatim>\<open>match\<close>: the spatial index (\<^verbatim>\<open>htm.HTM(10).match\<close> with
  \<^verbatim>\<open>maxmatch=0\<close>, which returns the matched pairs with their separations) and the two
  regressions of statsmodels, \<^verbatim>\<open>RLM(y, X).fit().params\<close> and
  \<^verbatim>\<open>WLS(y, X, weights=w).fit().params\<close>.
\<close>

record fit_engines =
  htm_match :: "float64 list \<Rightarrow> float64 list \<Rightarrow> float64 list \<Rightarrow> float64 list \<Rightarrow> float64 \<Rightarrow> (nat \<times> nat \<times> float64) list"
  RLM_fit :: "float64 list \<Rightarrow> float64 list list \<Rightarrow> float64 list"
  WLS_fit :: "float64 list \<Rightarrow> float64 list list \<Rightarrow> float64 list \<Rightarrow> float64 list"

record match_args =
  obj_ra :: "float64 list"
  obj_dec :: "float64 list"
  obj_mag :: "float64 list"
  obj_magerr :: "float64 list"
  obj_flags :: "int list"
  cat_ra :: "float64 list"
  cat_dec :: "float64 list"
  cat_mag :: "float64 option list"
  cat_magerr :: "float64 option list option"
  cat_color :: "float64 option list option"
  sr :: float64
  obj_x :: "float64 list option"
  obj_y :: "float64 list option"
  spatial_order :: int
  threshold :: float64
  robust :: bool

text \<open>The local variables of \<^verbatim>\<open>match\<close> when the loop starts (lines 325 to 371).\<close>

record fit_locals =
  l_oidx :: "nat list"
  l_cidx :: "nat list"
  l_dist :: "float64 list"
  l_omag :: "float64 list"
  l_omag_err :: "float64 list"
  l_oflags :: "int list"
  l_cmag :: "float64 list"
  l_cmag_err :: "float64 list"
  l_x0 :: float64
  l_y0 :: float64
  l_ncols :: nat
  l_X :: "float64 list list"
  l_ccolor :: "float64 list"
  l_zero :: "float64 list"
  l_zero_err :: "float64 list"
  l_weights :: "float64 list"
  l_idx0 :: "bool list"

text \<open>The centred positions (lines 337 to 342).\<close>

definition centred ::
  "match_args \<Rightarrow> nat list \<Rightarrow> nat \<Rightarrow> py_error + (float64 \<times> float64 \<times> float64 list \<times> float64 list)" where
  "centred a oi n =
     (case (obj_x a, obj_y a) of
        (Some ox, Some oy) \<Rightarrow>
          (case take_idx ox oi of
             Inl e \<Rightarrow> Inl e
           | Inr gx \<Rightarrow>
               (case take_idx oy oi of
                  Inl e \<Rightarrow> Inl e
                | Inr gy \<Rightarrow>
                    Inr (fmean gx, fmean gy,
                         map (\<lambda>v. fsub v (fmean gx)) gx, map (\<lambda>v. fsub v (fmean gy)) gy)))
      | _ \<Rightarrow> Inr (Fin 0, Fin 0, replicate n (Fin 0), replicate n (Fin 0)))"

text \<open>The regressors (lines 345 to 362): the spatial columns, then the colour column.\<close>

definition regressors ::
  "match_args \<Rightarrow> nat list \<Rightarrow> float64 list \<Rightarrow> float64 list \<Rightarrow> nat \<Rightarrow>
     py_error + (float64 list list \<times> float64 list)" where
  "regressors a ci x y n =
     (case make_series [Fin 1] x y (spatial_order a) True of
        Inl e \<Rightarrow> Inl e
      | Inr cols \<Rightarrow>
          (case cat_color a of
             None \<Rightarrow> Inr (cols, replicate n (Fin 0))
           | Some cc \<Rightarrow>
               (case take_idx cc ci of
                  Inl e \<Rightarrow> Inl e
                | Inr gc \<Rightarrow>
                    (case make_series (filled gc) x y 0 True of
                       Inl e \<Rightarrow> Inl e
                     | Inr ccols \<Rightarrow> Inr (cols @ ccols, filled gc)))))"

definition prepare :: "fit_engines \<Rightarrow> match_args \<Rightarrow> py_error + fit_locals" where
  "prepare eng a =
     (let m = htm_match eng (obj_ra a) (obj_dec a) (cat_ra a) (cat_dec a) (sr a);
          oi = map fst m; ci = map (\<lambda>t. fst (snd t)) m; ds = map (\<lambda>t. snd (snd t)) m
      in case take_idx (obj_mag a) oi of Inl e \<Rightarrow> Inl e | Inr om \<Rightarrow>
         case take_idx (obj_magerr a) oi of Inl e \<Rightarrow> Inl e | Inr ome \<Rightarrow>
         case take_idx (obj_flags a) oi of Inl e \<Rightarrow> Inl e | Inr ofl \<Rightarrow>
         case take_idx (cat_mag a) ci of Inl e \<Rightarrow> Inl e | Inr cm0 \<Rightarrow>
         case (case cat_magerr a of
                 None \<Rightarrow> Inr (map (\<lambda>_. Fin 0) cm0)
               | Some ce \<Rightarrow> (case take_idx ce ci of Inl e \<Rightarrow> Inl e | Inr g \<Rightarrow> Inr (filled g)))
         of Inl e \<Rightarrow> Inl e | Inr cme \<Rightarrow>
         case centred a oi (length om) of Inl e \<Rightarrow> Inl e | Inr (x0, y0, x, y) \<Rightarrow>
         case regressors a ci x y (length cm0) of Inl e \<Rightarrow> Inl e | Inr (cols, cc) \<Rightarrow>
         case vstack_T cols of Inl e \<Rightarrow> Inl e | Inr X \<Rightarrow>
           (let cm = filled cm0;
                z = map2 fsub cm om;
                ze = map2 fhypot ome cme;
                w = map (\<lambda>e. fdiv (Fin 1) (fpow e 2)) ze;
                i0 = map (\<lambda>(vom, vome, vcm, vcme, vfl).
                            isfinite vom \<and> isfinite vome \<and> isfinite vcm \<and> isfinite vcme \<and> vfl = 0)
                         (zip om (zip ome (zip cm (zip cme ofl))));
                i0' = (case cat_color a of None \<Rightarrow> i0
                       | Some _ \<Rightarrow> map2 (\<lambda>b c. b \<and> isfinite c) i0 cc)
            in Inr \<lparr> l_oidx = oi, l_cidx = ci, l_dist = ds, l_omag = om, l_omag_err = ome,
                     l_oflags = ofl, l_cmag = cm, l_cmag_err = cme, l_x0 = x0, l_y0 = y0,
                     l_ncols = length cols, l_X = X, l_ccolor = cc, l_zero = z, l_zero_err = ze,
                     l_weights = w, l_idx0 = i0' \<rparr>))"

text \<open>
  One pass of the loop body after the guard (lines 379 to 388): the regression over
  the active points, the model at every point, and the next active mask.
\<close>

record fit_state =
  s_params :: "float64 list"
  s_zero_model :: "float64 list"
  s_idx :: "bool list"

definition next_idx :: "float64 \<Rightarrow> fit_locals \<Rightarrow> float64 list \<Rightarrow> bool list" where
  "next_idx thr l zm =
     (if truthy thr
      then map (\<lambda>(b, z, m, e). b \<and> flt (fabs (fdiv (fsub z m) e)) thr)
             (zip (l_idx0 l) (zip (l_zero l) (zip zm (l_zero_err l))))
      else l_idx0 l)"

definition fit_pass ::
  "fit_engines \<Rightarrow> match_args \<Rightarrow> fit_locals \<Rightarrow> bool list \<Rightarrow> py_error + fit_state" where
  "fit_pass eng a l idx =
     (let C = (if robust a then RLM_fit eng (select idx (l_zero l)) (select idx (l_X l))
               else WLS_fit eng (select idx (l_zero l)) (select idx (l_X l)) (select idx (l_weights l)))
      in case X_dot (l_ncols l) (l_X l) C of
           Inl e \<Rightarrow> Inl e
         | Inr zm \<Rightarrow> Inr \<lparr> s_params = C, s_zero_model = zm, s_idx = next_idx (threshold a) l zm \<rparr>)"

text \<open>
  The loop \<^verbatim>\<open>for iter in range(5)\<close> (lines 373 to 394), with the number of rounds
  that may follow the current one as first argument. Beside the outcome (\<open>None\<close> is
  the \<^verbatim>\<open>return None\<close> of line 377) the function records what the claims speak of: the
  active mask at the start of every round it enters, and the number of regressions.
\<close>

record fit_trace =
  heads :: "bool list list"
  passes :: nat
  outcome :: "py_error + fit_state option"

fun robust_loop :: "nat \<Rightarrow> fit_engines \<Rightarrow> match_args \<Rightarrow> fit_locals \<Rightarrow> bool list \<Rightarrow> fit_trace" where
  "robust_loop 0 eng a l idx =
     (if count_true idx < 3 then \<lparr> heads = [idx], passes = 0, outcome = Inr None \<rparr>
      else case fit_pass eng a l idx of
             Inl e \<Rightarrow> \<lparr> heads = [idx], passes = 1, outcome = Inl e \<rparr>
           | Inr st \<Rightarrow> \<lparr> heads = [idx], passes = 1, outcome = Inr (Some st) \<rparr>)"
| "robust_loop (Suc n) eng a l idx =
     (if count_true idx < 3 then \<lparr> heads = [idx], passes = 0, outcome = Inr None \<rparr>
      else case fit_pass eng a l idx of
             Inl e \<Rightarrow> \<lparr> heads = [idx], passes = 1, outcome = Inl e \<rparr>
           | Inr st \<Rightarrow>
               if \<not> truthy (threshold a) then \<lparr> heads = [idx], passes = 1, outcome = Inr (Some st) \<rparr>
               else (let t = robust_loop n eng a l (s_idx st)
                     in \<lparr> heads = idx # heads t, passes = Suc (passes t), outcome = outcome t \<rparr>))"

text \<open>
  The closure \<^verbatim>\<open>zero_fn\<close> (lines 400 to 409) as the values it captures, and its call.
\<close>

record zero_closure =
  z_x0 :: float64
  z_y0 :: float64
  z_n :: nat
  z_order :: int
  z_params :: "float64 list"

definition zero_fn :: "zero_closure \<Rightarrow> float64 list option \<Rightarrow> float64 list option \<Rightarrow> py_error + float64 list" where
  "zero_fn cl xx yy =
     (let (x, y) = (case (xx, yy) of
                      (Some vx, Some vy) \<Rightarrow> (map (\<lambda>v. fsub v (z_x0 cl)) vx, map (\<lambda>v. fsub v (z_y0 cl)) vy)
                    | _ \<Rightarrow> (replicate (z_n cl) (Fin 0), replicate (z_n cl) (Fin 0)))
      in case make_series [Fin 1] x y (z_order cl) True of
           Inl e \<Rightarrow> Inl e
         | Inr cols \<Rightarrow>
             (case vstack_T cols of
                Inl e \<Rightarrow> Inl e
              | Inr X \<Rightarrow> X_dot (length cols) X (take (length cols) (z_params cl))))"

text \<open>The returned dictionary (lines 419 to 426).\<close>

record fit_bundle =
  oidx :: "nat list"
  cidx :: "nat list"
  dist :: "float64 list"
  omag :: "float64 list"
  omag_err :: "float64 list"
  cmag :: "float64 list"
  cmag_err :: "float64 list"
  color :: "float64 list"
  color_term :: "float64 option"
  zero_pt :: "float64 list"
  zero_err :: "float64 list"
  zero_model :: "float64 list"
  zero_fn_closure :: zero_closure
  obj_zero :: "float64 list"
  idx :: "bool list"
  idx0 :: "bool list"

text \<open>
  The colour term (lines 411 to 417): \<^verbatim>\<open>C.params[len(X):][0]\<close> for the columns \<^verbatim>\<open>X\<close>
  of \<^verbatim>\<open>make_series(order=spatial_order)\<close>, that is of the scalars \<^verbatim>\<open>x = y = 1.0\<close>.
\<close>

definition get_color_term :: "match_args \<Rightarrow> float64 list \<Rightarrow> py_error + float64 option" where
  "get_color_term a params =
     (case cat_color a of
        None \<Rightarrow> Inr None
      | Some _ \<Rightarrow>
          (case make_series [Fin 1] [Fin 1] [Fin 1] (spatial_order a) True of
             Inl e \<Rightarrow> Inl e
           | Inr cols \<Rightarrow>
               if length cols < length params then Inr (Some (params ! length cols))
               else Inl IndexError))"

definition export_model :: "match_args \<Rightarrow> fit_locals \<Rightarrow> fit_state \<Rightarrow> py_error + fit_bundle" where
  "export_model a l st =
     (let cl = \<lparr> z_x0 = l_x0 l, z_y0 = l_y0 l, z_n = length (l_omag l),
                 z_order = spatial_order a, z_params = s_params st \<rparr>
      in case get_color_term a (s_params st) of
           Inl e \<Rightarrow> Inl e
         | Inr ct \<Rightarrow>
             (case zero_fn cl (obj_x a) (obj_y a) of
                Inl e \<Rightarrow> Inl e
              | Inr oz \<Rightarrow>
                  Inr \<lparr> oidx = l_oidx l, cidx = l_cidx l, dist = l_dist l,
                        omag = l_omag l, omag_err = l_omag_err l,
                        cmag = l_cmag l, cmag_err = l_cmag_err l,
                        color = l_ccolor l, color_term = ct,
                        zero_pt = l_zero l, zero_err = l_zero_err l,
                        zero_model = s_zero_model st, zero_fn_closure = cl,
                        obj_zero = oz, idx = s_idx st, idx0 = l_idx0 l \<rparr>))"

text \<open>
  \<^verbatim>\<open>match\<close> with its trace: \<open>Inr None\<close> is the \<^verbatim>\<open>return None\<close>, \<open>Inr (Some b)\<close> the
  returned dictionary, \<open>Inl e\<close> an exception. The printing under \<^verbatim>\<open>verbose\<close> is not
  modelled.
\<close>

definition match_trace :: "fit_engines \<Rightarrow> match_args \<Rightarrow> fit_trace" where
  "match_trace eng a =
     (case prepare eng a of
        Inl e \<Rightarrow> \<lparr> heads = [], passes = 0, outcome = Inl e \<rparr>
      | Inr l \<Rightarrow> robust_loop 4 eng a l (l_idx0 l))"

definition match :: "fit_engines \<Rightarrow> match_args \<Rightarrow> py_error + fit_bundle option" where
  "match eng a =
     (case prepare eng a of
        Inl e \<Rightarrow> Inl e
      | Inr l \<Rightarrow>
          (case outcome (robust_loop 4 eng a l (l_idx0 l)) of
             Inl e \<Rightarrow> Inl e
           | Inr None \<Rightarrow> Inr None
           | Inr (Some st) \<Rightarrow>
               (case export_model a l st of Inl e \<Rightarrow> Inl e | Inr b \<Rightarrow> Inr (Some b))))"

subsection \<open>Well-formed inputs, reference definitions and examples\<close>

text \<open>
  The column \<^verbatim>\<open>mul * x**(i-j) * y**j\<close> for \<^verbatim>\<open>mul = 1.0\<close> and arrays of one length, and the list of all columns in that case: the form the proofs below reduce \<^verbatim>\<open>make_series\<close> to.
\<close>

definition term_col :: "float64 list \<Rightarrow> float64 list \<Rightarrow> nat \<Rightarrow> nat \<Rightarrow> float64 list" where
  "term_col x y i j = map2 fmul (map (fmul (Fin 1)) (map (\<lambda>a. fpow a (i - j)) x)) (map (\<lambda>b. fpow b j) y)"

definition spatial_cols :: "float64 list \<Rightarrow> float64 list \<Rightarrow> int \<Rightarrow> float64 list list" where
  "spatial_cols x y order = map (\<lambda>a. fmul (Fin 1) (Fin 1)) x #
      concat (map (\<lambda>i. map (\<lambda>j. term_col x y i j) [0..<Suc i]) [1..<Suc (nat order)])"

text \<open>
  The number of spatial columns, \<^verbatim>\<open>len(make_series(order=spatial_order))\<close> as line 412 computes it, and the number of regressors with the colour column.
\<close>

definition n_spatial :: "int \<Rightarrow> nat" where
  "n_spatial order =
     (case make_series [Fin 1] [Fin 1] [Fin 1] order True of Inl _ \<Rightarrow> 0 | Inr cols \<Rightarrow> length cols)"

definition n_regressors :: "match_args \<Rightarrow> nat" where
  "n_regressors a = n_spatial (spatial_order a) + (case cat_color a of None \<Rightarrow> 0 | Some _ \<Rightarrow> 1)"

text \<open>
  Well-formed inputs: \<^verbatim>\<open>obj_x\<close> and \<^verbatim>\<open>obj_y\<close> are columns of one table, and every matched pair indexes into the object and catalogue columns.
\<close>

definition xy_same_length :: "match_args \<Rightarrow> bool" where
  "xy_same_length a =
     (case (obj_x a, obj_y a) of (Some ox, Some oy) \<Rightarrow> length ox = length oy | _ \<Rightarrow> True)"



text \<open>
  The centred positions \<^verbatim>\<open>zero_fn\<close> evaluates the series at (lines 401 to 404).
\<close>

definition zero_fn_xy :: "zero_closure \<Rightarrow> float64 list option \<Rightarrow> float64 list option \<Rightarrow> float64 list \<times> float64 list" where
  "zero_fn_xy cl xx yy =
     (case (xx, yy) of
        (Some vx, Some vy) \<Rightarrow> (map (\<lambda>v. fsub v (z_x0 cl)) vx, map (\<lambda>v. fsub v (z_y0 cl)) vy)
      | _ \<Rightarrow> (replicate (z_n cl) (Fin 0), replicate (z_n cl) (Fin 0)))"

text \<open>
  Concrete collaborators for the examples: a matcher that pairs an object with every catalogue star at the same coordinates (separation 0), and least squares for a design of one constant column, where the weighted fit is the weighted mean (the robust fit is not used by the examples and stands as the plain mean).
\<close>

fun same_place :: "nat \<Rightarrow> nat \<Rightarrow> float64 \<times> float64 \<Rightarrow> (float64 \<times> float64) list \<Rightarrow> (nat \<times> nat \<times> float64) list" where
  "same_place i j p [] = []"
| "same_place i j p (q # qs) = (if p = q then [(i, j, Fin 0)] else []) @ same_place i (Suc j) p qs"

fun match_same :: "nat \<Rightarrow> (float64 \<times> float64) list \<Rightarrow> (float64 \<times> float64) list \<Rightarrow> (nat \<times> nat \<times> float64) list" where
  "match_same i [] cs = []"
| "match_same i (p # ps) cs = same_place i 0 p cs @ match_same (Suc i) ps cs"

definition exact_engines :: fit_engines where
  "exact_engines =
     \<lparr> htm_match = (\<lambda>ora odec cra cdec r. match_same 0 (zip ora odec) (zip cra cdec)),
       RLM_fit = (\<lambda>y X. [fmean y]),
       WLS_fit = (\<lambda>y X w. [fdiv (fsum (map2 fmul w y)) (fsum w)]) \<rparr>"

text \<open>
  Six matched stars with unit errors: four at zero point 0, one at -2, one at 10; and the local variables \<^verbatim>\<open>match\<close> prepares for them.
\<close>

definition six_args :: match_args where
  "six_args =
     \<lparr> obj_ra = [Fin 0, Fin 1, Fin 2, Fin 3, Fin 4, Fin 5], obj_dec = [Fin 0, Fin 0, Fin 0, Fin 0, Fin 0, Fin 0],
       obj_mag = [Fin 0, Fin 0, Fin 0, Fin 0, Fin 0, Fin 0], obj_magerr = [Fin 1, Fin 1, Fin 1, Fin 1, Fin 1, Fin 1],
       obj_flags = [0, 0, 0, 0, 0, 0],
       cat_ra = [Fin 0, Fin 1, Fin 2, Fin 3, Fin 4, Fin 5], cat_dec = [Fin 0, Fin 0, Fin 0, Fin 0, Fin 0, Fin 0],
       cat_mag = [Some (Fin 0), Some (Fin 0), Some (Fin 0), Some (Fin 0), Some (Fin (-2)), Some (Fin 10)],
       cat_magerr = None, cat_color = None, sr = Fin (1/1200),
       obj_x = None, obj_y = None, spatial_order = 0, threshold = Fin 3, robust = False \<rparr>"

definition six_locals :: fit_locals where
  "six_locals = \<lparr>l_oidx = [0, 1, 2, 3, 4, 5], l_cidx = [0, 1, 2, 3, 4, 5],
            l_dist = [Fin 0, Fin 0, Fin 0, Fin 0, Fin 0, Fin 0],
            l_omag = [Fin 0, Fin 0, Fin 0, Fin 0, Fin 0, Fin 0],
            l_omag_err = [Fin 1, Fin 1, Fin 1, Fin 1, Fin 1, Fin 1],
            l_oflags = [0, 0, 0, 0, 0, 0],
            l_cmag = [Fin 0, Fin 0, Fin 0, Fin 0, Fin (- 2), Fin 10],
            l_cmag_err = [Fin 0, Fin 0, Fin 0, Fin 0, Fin 0, Fin 0],
            l_x0 = Fin 0, l_y0 = Fin 0, l_ncols = 1,
            l_X = [[Fin 1], [Fin 1], [Fin 1], [Fin 1], [Fin 1], [Fin 1]],
            l_ccolor = [Fin 0, Fin 0, Fin 0, Fin 0, Fin 0, Fin 0],
            l_zero = [Fin 0, Fin 0, Fin 0, Fin 0, Fin (- 2), Fin 10],
            l_zero_err = [Fin 1, Fin 1, Fin 1, Fin 1, Fin 1, Fin 1],
            l_weights = [Fin 1, Fin 1, Fin 1, Fin 1, Fin 1, Fin 1],
            l_idx0 = [True, True, True, True, True, True]\<rparr>"



text \<open>
  A fitted constant surface of zero point 25.
\<close>

definition offset_closure :: zero_closure where
  "offset_closure = \<lparr> z_x0 = Fin 512, z_y0 = Fin 512, z_n = 3, z_order = 0, z_params = [Fin 25] \<rparr>"

section \<open>Source extraction\<close>

subsection \<open>Sorting, median and rounding as numpy does them\<close>

text \<open>
  numpy sorts \<open>NaN\<close> after every other value. \<^verbatim>\<open>np_sort\<close> is a stable sort by a key in
  that order, \<^verbatim>\<open>np_median\<close> is \<^verbatim>\<open>np.median\<close> of a one-dimensional array (\<open>NaN\<close> for an
  empty array and whenever a \<open>NaN\<close> is present).
\<close>

definition np_le :: "float64 \<Rightarrow> float64 \<Rightarrow> bool" where
  "np_le u v = (isnan v \<or> (\<not> isnan u \<and> fle u v))"

fun np_insort :: "('r \<Rightarrow> float64) \<Rightarrow> 'r \<Rightarrow> 'r list \<Rightarrow> 'r list" where
  "np_insort key r [] = [r]"
| "np_insort key r (s # ss) =
     (if np_le (key r) (key s) then r # s # ss else s # np_insort key r ss)"

definition np_sort :: "('r \<Rightarrow> float64) \<Rightarrow> 'r list \<Rightarrow> 'r list" where
  "np_sort key rs = foldr (np_insort key) rs []"

definition np_median :: "float64 list \<Rightarrow> float64" where
  "np_median vs =
     (if vs = [] \<or> list_ex isnan vs then NaN
      else (let s = np_sort (\<lambda>v. v) vs; n = length s
            in if odd n then s ! (n div 2)
               else fdiv (fadd (s ! (n div 2 - 1)) (s ! (n div 2))) (Fin 2)))"

text \<open>\<^verbatim>\<open>np.round\<close>: to the nearest integer, a tie to the even one.\<close>

definition round_half_even :: "real \<Rightarrow> int" where
  "round_half_even r =
     (let f = \<lfloor>r\<rfloor>; d = r - of_int f
      in if d < 1 / 2 then f else if d > 1 / 2 then f + 1 else if even f then f else f + 1)"

fun fround :: "float64 \<Rightarrow> float64" where
  "fround (Fin r) = Fin (of_int (round_half_even r))"
| "fround v = v"

text \<open>
  Python's \<^verbatim>\<open>max(u, v)\<close> keeps its first argument unless the second compares greater,
  and \<^verbatim>\<open>1.0/sn\<close> of a Python float raises on zero.
\<close>

definition py_max :: "float64 \<Rightarrow> float64 \<Rightarrow> float64" where
  "py_max u v = (if fgt v u then v else u)"

fun py_inverse :: "float64 \<Rightarrow> py_error + float64" where
  "py_inverse (Fin s) = (if s = 0 then Inl ZeroDivisionError else Inr (Fin (1 / s)))"
| "py_inverse PInf = Inr (Fin 0)"
| "py_inverse NInf = Inr (Fin 0)"
| "py_inverse NaN = Inr NaN"

subsection \<open>Arrays in memory\<close>

text \<open>
  The image and the mask are numpy arrays the caller owns, and the function creates
  further two-dimensional arrays. They live in a heap of arrays; an argument is a
  reference into it. The one piece of process-wide state the function touches is the
  pixel stack size of the \<^verbatim>\<open>sep\<close> module (\<^verbatim>\<open>sep.set_extract_pixstack\<close>).
\<close>

datatype ndarray = FloatArr image | BoolArr mask

record world =
  heap :: "nat \<Rightarrow> ndarray option"
  next_addr :: nat
  pixstack :: nat

definition alloc :: "ndarray \<Rightarrow> world \<Rightarrow> nat \<times> world" where
  "alloc v w = (next_addr w, w\<lparr>heap := (heap w)(next_addr w \<mapsto> v), next_addr := Suc (next_addr w)\<rparr>)"

definition set_extract_pixstack :: "nat \<Rightarrow> world \<Rightarrow> world" where
  "set_extract_pixstack n w = w\<lparr>pixstack := n\<rparr>"

definition nrows :: "'v list list \<Rightarrow> nat" where
  "nrows img = length img"

definition ncols :: "'v list list \<Rightarrow> nat" where
  "ncols img = (case img of [] \<Rightarrow> 0 | r # _ \<Rightarrow> length r)"

definition zeros_like_mask :: "'v list list \<Rightarrow> mask" where
  "zeros_like_mask img = map (map (\<lambda>_. False)) img"

text \<open>
  Elementwise \<^verbatim>\<open>|\<close> of masks and \<^verbatim>\<open>-\<close> of images: numpy raises \<^verbatim>\<open>ValueError\<close> for operands
  of different shapes. (It would broadcast an axis of length one; \<^verbatim>\<open>sep\<close> refuses a mask
  that has not the shape of the image, so no such operand reaches these operations.)
\<close>

definition same_shape :: "'u list list \<Rightarrow> 'v list list \<Rightarrow> bool" where
  "same_shape m1 m2 = (map length m1 = map length m2)"

definition mask_or :: "mask \<Rightarrow> mask \<Rightarrow> py_error + mask" where
  "mask_or m1 m2 = (if same_shape m1 m2 then Inr (map2 (map2 (\<or>)) m1 m2) else Inl ValueError)"

definition image_sub :: "image \<Rightarrow> image \<Rightarrow> py_error + image" where
  "image_sub i1 i2 = (if same_shape i1 i2 then Inr (map2 (map2 fsub) i1 i2) else Inl ValueError)"

definition masked_at :: "mask \<Rightarrow> nat \<times> nat \<Rightarrow> bool" where
  "masked_at m p = (fst p < length m \<and> snd p < length (m ! fst p) \<and> m ! fst p ! snd p)"

subsection \<open>\<^verbatim>\<open>make_kernel\<close>\<close>

text \<open>
  \<^verbatim>\<open>make_kernel(r0, ext)\<close>: a Gaussian on the integer grid from \<^verbatim>\<open>floor(-ext*r0)\<close> up
  to, not including, \<^verbatim>\<open>ceil(ext*r0+1)\<close>.
\<close>

definition make_kernel :: "real \<Rightarrow> real \<Rightarrow> image" where
  "make_kernel r0 ext =
     (let grid = [\<lfloor>- ext * r0\<rfloor> .. \<lceil>ext * r0 + 1\<rceil> - 1]
      in map (\<lambda>gx. map (\<lambda>gy.
             Fin (exp (- ((sqrt (of_int gx * of_int gx + of_int gy * of_int gy)) ^ 2) / 2 / r0 ^ 2)))
           grid) grid)"

subsection \<open>The collaborators of \<^verbatim>\<open>get_objects_sep\<close>\<close>

text \<open>A row of the structured array \<^verbatim>\<open>sep.extract\<close> returns, with the fields the function reads.\<close>

record candidate =
  c_x :: float64
  c_y :: float64
  c_flag :: int
  c_npix :: int
  c_tnpix :: int
  c_a :: float64
  c_b :: float64
  c_theta :: float64
  c_errx2 :: float64
  c_erry2 :: float64

type_synonym header = "(string \<times> string) list"
type_synonym pix2world = "nat \<Rightarrow> float64 \<times> float64 \<Rightarrow> float64 \<times> float64"

text \<open>
  The engine: \<^verbatim>\<open>sep.Background\<close> (its \<^verbatim>\<open>back()\<close> and \<^verbatim>\<open>rms()\<close> maps), \<^verbatim>\<open>sep.extract\<close> (which
  may raise, and works within the pixel stack the module holds; \<^verbatim>\<open>**kwargs\<close> belong to
  it), \<^verbatim>\<open>sep.flux_radius\<close> and \<^verbatim>\<open>sep.sum_circle\<close> (vectorised over the positions: the
  result at one position depends on that position only, so they are functions of a
  position and the array calls are maps), the dilation by \<^verbatim>\<open>np.ones([10, 10])\<close>, and
  \<^verbatim>\<open>WCS(header)\<close> with \<^verbatim>\<open>all_pix2world\<close> as a function of the origin and the pixel position.
  \<^verbatim>\<open>aperture_pixels\<close> names the pixels \<^verbatim>\<open>sum_circle\<close> visits for an aperture: it is what
  the aperture overlapping a mask means.
\<close>

record sep_engine =
  Background :: "image \<Rightarrow> mask \<Rightarrow> nat \<Rightarrow> nat \<Rightarrow> image \<times> image"
  sep_extract ::
    "nat \<Rightarrow> image \<Rightarrow> image \<Rightarrow> float64 \<Rightarrow> int \<Rightarrow> mask \<Rightarrow> image option \<Rightarrow>
       py_error + (candidate list \<times> nat list list)"
  flux_radius :: "image \<Rightarrow> mask \<Rightarrow> float64 \<Rightarrow> float64 \<Rightarrow> float64 \<times> float64 \<Rightarrow> float64"
  sum_circle ::
    "image \<Rightarrow> image \<Rightarrow> float64 \<Rightarrow> mask \<Rightarrow> (float64 \<times> float64) option \<Rightarrow> float64 \<Rightarrow>
       float64 \<times> float64 \<Rightarrow> float64 \<times> float64 \<times> int"
  dilate :: "mask \<Rightarrow> mask"
  WCS :: "header \<Rightarrow> pix2world"
  aperture_pixels :: "float64 \<Rightarrow> float64 \<times> float64 \<Rightarrow> (nat \<times> nat) list"

text \<open>\<^verbatim>\<open>sep.APER_HASMASKED\<close>, the flag \<^verbatim>\<open>sum_circle\<close> sets for an aperture with masked pixels.\<close>

definition APER_HASMASKED :: int where
  "APER_HASMASKED = 32"

definition overlaps :: "sep_engine \<Rightarrow> mask \<Rightarrow> float64 \<Rightarrow> float64 \<times> float64 \<Rightarrow> bool" where
  "overlaps eng m r p = list_ex (masked_at m) (aperture_pixels eng r p)"

subsection \<open>\<^verbatim>\<open>get_objects_sep\<close>\<close>

record sep_args =
  e_image :: nat
  e_header :: "header option"
  e_mask :: "nat option"
  e_thresh :: float64
  e_aper :: float64
  e_bkgann :: "(float64 \<times> float64) option"
  e_r0 :: real
  e_gain :: float64
  e_edge :: real
  e_minnthresh :: int
  e_minarea :: int
  e_relfluxradius :: float64
  e_wcs :: "pix2world option"
  e_use_fwhm :: bool
  e_use_mask_large :: bool
  e_subtract_bg :: bool
  e_npix_large :: int
  e_sn :: float64

text \<open>A row of the returned table, and the table with its \<^verbatim>\<open>meta\<close> entries.\<close>

record measurement =
  m_x :: float64
  m_y :: float64
  m_xerr :: float64
  m_yerr :: float64
  m_flux :: float64
  m_fluxerr :: float64
  m_mag :: float64
  m_magerr :: float64
  m_flags :: int
  m_ra :: float64
  m_dec :: float64
  m_bg :: float64
  m_fwhm :: float64
  m_a :: float64
  m_b :: float64
  m_theta :: float64

record obj_table =
  rows :: "measurement list"
  meta_aper :: float64
  meta_bkgann :: "(float64 \<times> float64) option"

text \<open>\<^verbatim>\<open>obj.sort('flux', reverse=True)\<close>: the ascending order of the key, reversed.\<close>

definition sort_flux_reverse :: "measurement list \<Rightarrow> measurement list" where
  "sort_flux_reverse rs = rev (np_sort m_flux rs)"

text \<open>
  The mask of the large objects (lines 75 and 76): the pixels whose segmentation label
  is that of a first-pass object of more than \<^verbatim>\<open>npix_large\<close> pixels, dilated.
\<close>

definition large_labels :: "int \<Rightarrow> candidate list \<Rightarrow> nat list" where
  "large_labels npix_large obj0 =
     map (\<lambda>(k, c). k + 1) (filter (\<lambda>(k, c). c_npix c > npix_large) (enumerate 0 obj0))"

definition isin :: "nat list list \<Rightarrow> nat list \<Rightarrow> mask" where
  "isin segm labels = map (map (\<lambda>v. v \<in> set labels)) segm"

text \<open>The aperture from the seeing (lines 83 to 90).\<close>

definition fwhm_aperture :: "sep_engine \<Rightarrow> sep_args \<Rightarrow> image \<Rightarrow> mask \<Rightarrow> candidate list \<Rightarrow> float64" where
  "fwhm_aperture eng a image1 msk obj0 =
     (let sel = filter (\<lambda>c. c_flag c = 0) obj0;
          fwhm0 = map (\<lambda>c. fmul (Fin 2) (fsqrt (fmul (fhypot (c_a c) (c_b c)) (Fin (ln 2))))) sel;
          fwhm1 = map2 (\<lambda>c f. fmul (Fin 2)
                     (flux_radius eng image1 msk (fmul (fmul (e_relfluxradius a) f) (Fin 1)) (Fin (1 / 2))
                        (c_x c, c_y c)))
                   sel fwhm0;
          fwhm = np_median fwhm1
      in py_max (fmul (Fin (3 / 2)) fwhm) (e_aper a))"

text \<open>The cut at the frame edges and on the number of thresholded pixels (lines 100 to 103).\<close>

definition keep_candidate :: "sep_args \<Rightarrow> image \<Rightarrow> candidate \<Rightarrow> bool" where
  "keep_candidate a img c =
     (fgt (fround (c_x c)) (Fin (e_edge a)) \<and> fgt (fround (c_y c)) (Fin (e_edge a)) \<and>
      flt (fround (c_x c)) (Fin (real (ncols img) - e_edge a)) \<and>
      flt (fround (c_y c)) (Fin (real (nrows img) - e_edge a)) \<and>
      (e_minnthresh a = 0 \<or> c_tnpix c \<ge> e_minnthresh a))"

text \<open>
  The measurement of one retained candidate (lines 108 to 149): the aperture sums on the
  image and on the background map, the magnitudes where the flux is positive (zero
  elsewhere), the half-flux diameter, the merged flags and the sky position.
\<close>

definition flux_to_mag :: "float64 \<Rightarrow> float64" where
  "flux_to_mag f = (if fgt f (Fin 0) then fmul (Fin (- 5 / 2)) (flog10 f) else Fin 0)"

definition flux_to_magerr :: "float64 \<Rightarrow> float64 \<Rightarrow> float64" where
  "flux_to_magerr f ferr =
     (if fgt f (Fin 0) then fdiv (fmul (Fin (5 / 2 / ln 10)) ferr) f else Fin 0)"

definition measure ::
  "sep_engine \<Rightarrow> sep_args \<Rightarrow> image \<Rightarrow> image \<Rightarrow> image \<Rightarrow> mask \<Rightarrow> mask \<Rightarrow> float64 \<Rightarrow>
     pix2world option \<Rightarrow> candidate \<Rightarrow> measurement" where
  "measure eng a image1 back rms msk mask_all aper w2 c =
     (let (flux, fluxerr, flag) =
            sum_circle eng image1 rms (e_gain a) mask_all (e_bkgann a) aper (c_x c, c_y c);
          (bgflux, bgfluxerr, bgflag) =
            sum_circle eng back rms (e_gain a) mask_all None aper (c_x c, c_y c);
          bgnorm = fdiv (fdiv bgflux (Fin pi)) (fpow aper 2);
          fwhm = fmul (Fin 2)
                   (flux_radius eng image1 msk (fmul (fmul (e_relfluxradius a) aper) (Fin 1)) (Fin (1 / 2))
                      (c_x c, c_y c));
          flag1 = flag OR c_flag c;
          (ra, dec) = (case w2 of None \<Rightarrow> (Fin 0, Fin 0) | Some f \<Rightarrow> f 0 (c_x c, c_y c))
      in \<lparr> m_x = c_x c, m_y = c_y c,
           m_xerr = fsqrt (c_errx2 c), m_yerr = fsqrt (c_erry2 c),
           m_flux = flux, m_fluxerr = fluxerr,
           m_mag = flux_to_mag flux, m_magerr = flux_to_magerr flux fluxerr,
           m_flags = c_flag c OR flag1,
           m_ra = ra, m_dec = dec, m_bg = bgnorm, m_fwhm = fwhm,
           m_a = c_a c, m_b = c_b c, m_theta = c_theta c \<rparr>)"

text \<open>The quality cut of line 126, on a measured row.\<close>

definition quality :: "float64 \<Rightarrow> measurement \<Rightarrow> bool" where
  "quality maxerr r = (fgt (m_flux r) (Fin 0) \<and> flt (m_magerr r) maxerr)"

text \<open>
  The local variables when the final objects are extracted (line 81): the image, the
  image the objects were found in, the background and noise maps, the mask variable,
  the mask of the large objects (all zero when the two passes are off) and the objects.
\<close>

record sep_locals =
  sl_image :: image
  sl_image1 :: image
  sl_back :: image
  sl_rms :: image
  sl_mask :: mask
  sl_mask_segm :: mask
  sl_mask_all :: mask
  sl_obj0 :: "candidate list"

text \<open>Lines 83 to 156: the aperture, the cuts, the photometry, the table and its order.\<close>

definition final_aper :: "sep_engine \<Rightarrow> sep_args \<Rightarrow> sep_locals \<Rightarrow> float64" where
  "final_aper eng a l =
     (if e_use_fwhm a then fwhm_aperture eng a (sl_image1 l) (sl_mask l) (sl_obj0 l) else e_aper a)"

definition sky_transform :: "sep_engine \<Rightarrow> pix2world option \<Rightarrow> header option \<Rightarrow> pix2world option" where
  "sky_transform eng w h =
     (case w of
        Some f \<Rightarrow> Some f
      | None \<Rightarrow> (case h of None \<Rightarrow> None | Some hdr \<Rightarrow> Some (WCS eng hdr)))"

definition build_table :: "sep_engine \<Rightarrow> sep_args \<Rightarrow> sep_locals \<Rightarrow> py_error + obj_table" where
  "build_table eng a l =
     (let aper = final_aper eng a l;
          kept = filter (keep_candidate a (sl_image l)) (sl_obj0 l)
      in case py_inverse (e_sn a) of
           Inl e \<Rightarrow> Inl e
         | Inr maxerr \<Rightarrow>
             (let measured = map (measure eng a (sl_image1 l) (sl_back l) (sl_rms l) (sl_mask l)
                                     (sl_mask_all l) aper (sky_transform eng (e_wcs a) (e_header a)))
                               kept
              in Inr \<lparr> rows = sort_flux_reverse (filter (quality maxerr) measured),
                       meta_aper = aper, meta_bkgann = e_bkgann a \<rparr>))"

text \<open>
  The masks and the extraction passes (lines 40 to 81). Every named two-dimensional
  array the function creates is allocated in the heap; no statement writes into an
  existing one. \<^verbatim>\<open>sep\<close> raises for a mask that has not the shape of the image.
\<close>

definition large_object_mask :: "sep_engine \<Rightarrow> sep_args \<Rightarrow> candidate list \<Rightarrow> nat list list \<Rightarrow> mask" where
  "large_object_mask eng a first segm = dilate eng (isin segm (large_labels (e_npix_large a) first))"

definition detect :: "sep_engine \<Rightarrow> sep_args \<Rightarrow> world \<Rightarrow> (py_error + sep_locals) \<times> world" where
  "detect eng a w0 =
     (case heap w0 (e_image a) of
        Some (FloatArr img) \<Rightarrow>
          (let kernel = (if e_r0 a > 0 then Some (make_kernel (e_r0 a) 1) else None);
               (mask_ref, w1) = (case e_mask a of
                                   None \<Rightarrow> alloc (BoolArr (zeros_like_mask img)) w0
                                 | Some r \<Rightarrow> (r, w0))
           in case heap w1 mask_ref of
                Some (BoolArr msk) \<Rightarrow>
                  (let (bg_ref, w2) = alloc (BoolArr (zeros_like_mask msk)) w1;
                       (segm_ref, w3) = alloc (BoolArr (zeros_like_mask msk)) w2
                   in case mask_or msk (zeros_like_mask msk) of
                        Inl e \<Rightarrow> (Inl e, w3)
                      | Inr mask0 \<Rightarrow>
                          if \<not> same_shape mask0 img then (Inl ValueError, w3)
                          else
                            (let (back, rms) = Background eng img mask0 64 64
                             in case (if e_subtract_bg a then image_sub img back else Inr img) of
                                  Inl e \<Rightarrow> (Inl e, w3)
                                | Inr image1 \<Rightarrow>
                                    (let (image1_ref, w4) = alloc (FloatArr image1) w3;
                                         w5 = set_extract_pixstack (nrows img * ncols img) w4
                                     in if e_use_mask_large a then
                                          (case sep_extract eng (pixstack w5) image1 rms (e_thresh a)
                                                  (e_minarea a) mask0 kernel of
                                             Inl e \<Rightarrow> (Inl e, w5)
                                           | Inr (first, segm) \<Rightarrow>
                                               (let (r6, w6) = alloc (BoolArr (isin segm (large_labels (e_npix_large a) first))) w5;
                                                    mask_segm = large_object_mask eng a first segm;
                                                    (r7, w7) = alloc (BoolArr mask_segm) w6
                                                in case mask_or mask0 mask_segm of
                                                     Inl e \<Rightarrow> (Inl e, w7)
                                                   | Inr mask_all \<Rightarrow>
                                                       (case sep_extract eng (pixstack w7) image1 rms
                                                               (e_thresh a) (e_minarea a) mask_all kernel of
                                                          Inl e \<Rightarrow> (Inl e, w7)
                                                        | Inr (obj0, _) \<Rightarrow>
                                                            (Inr \<lparr> sl_image = img, sl_image1 = image1,
                                                                   sl_back = back, sl_rms = rms,
                                                                   sl_mask = msk, sl_mask_segm = mask_segm,
                                                                   sl_mask_all = mask_all, sl_obj0 = obj0 \<rparr>,
                                                             w7))))
                                        else
                                          (case mask_or mask0 (zeros_like_mask msk) of
                                             Inl e \<Rightarrow> (Inl e, w5)
                                           | Inr mask_all \<Rightarrow>
                                               (case sep_extract eng (pixstack w5) image1 rms
                                                       (e_thresh a) (e_minarea a) mask_all kernel of
                                                  Inl e \<Rightarrow> (Inl e, w5)
                                                | Inr (obj0, _) \<Rightarrow>
                                                    (Inr \<lparr> sl_image = img, sl_image1 = image1,
                                                           sl_back = back, sl_rms = rms,
                                                           sl_mask = msk, sl_mask_segm = zeros_like_mask msk,
                                                           sl_mask_all = mask_all, sl_obj0 = obj0 \<rparr>,
                                                     w5))))))
              | _ \<Rightarrow> (Inl TypeError, w1))
      | _ \<Rightarrow> (Inl TypeError, w0))"

definition get_objects_sep :: "sep_engine \<Rightarrow> sep_args \<Rightarrow> world \<Rightarrow> (py_error + obj_table) \<times> world" where
  "get_objects_sep eng a w0 =
     (case detect eng a w0 of
        (Inl e, w) \<Rightarrow> (Inl e, w)
      | (Inr l, w) \<Rightarrow> (build_table eng a l, w))"

subsection \<open>\<^verbatim>\<open>get_objects_sextractor\<close>\<close>

text \<open>
  A row of the catalogue SExtractor writes (the columns of line 207), for a scalar
  aperture (\<^verbatim>\<open>np.isscalar(aper)\<close>). With a sequence of apertures the aperture columns
  are two-dimensional and the order \<^verbatim>\<open>Table.sort\<close> gives such a column is the library's
  own; that case is not modelled. The columns of \<^verbatim>\<open>extra_params\<close>, copied into other
  columns of the table after the sort, and the files the function writes are left out.
\<close>

record sex_row =
  MAG_APER :: float64
  MAGERR_APER :: float64
  FLUX_APER :: float64
  FLUXERR_APER :: float64
  X_IMAGE :: float64
  Y_IMAGE :: float64
  ERRX2_IMAGE :: float64
  ERRY2_IMAGE :: float64
  A_IMAGE :: float64
  B_IMAGE :: float64
  THETA_IMAGE :: float64
  FLUX_RADIUS :: float64
  FWHM_IMAGE :: float64
  FLAGS :: int
  IMAFLAGS_ISO :: int
  BACKGROUND :: float64

record sex_args =
  x_image :: image
  x_header :: "header option"
  x_mask :: "mask option"
  x_thresh :: float64
  x_aper :: float64
  x_r0 :: real
  x_gain :: float64
  x_edge :: real
  x_minarea :: int
  x_wcs :: "pix2world option"
  x_sn :: float64
  x_checkimages :: "string list"

text \<open>
  What the function finds outside: the files of the search path, the exit status of the
  command for the binary it picked, the catalogue and the check images the run wrote,
  and \<^verbatim>\<open>WCS(header)\<close>.
\<close>

record sex_env =
  isfile :: "string \<Rightarrow> bool"
  os_system :: "string \<Rightarrow> sex_args \<Rightarrow> int"
  catalogue :: "sex_row list"
  checkimage :: "string \<Rightarrow> image"
  header_WCS :: "header \<Rightarrow> pix2world"

text \<open>
  The search of lines 160 to 165: the \<^verbatim>\<open>break\<close> leaves the inner loop only, so the
  first executable of the last directory that has one is taken.
\<close>

definition find_binary :: "sex_env \<Rightarrow> string option" where
  "find_binary env =
     foldl (\<lambda>binname path.
              case find (\<lambda>exe. isfile env (path @ ''/'' @ exe))
                     [''sex'', ''sextractor'', ''source-extractor''] of
                None \<Rightarrow> binname
              | Some exe \<Rightarrow> Some (path @ ''/'' @ exe))
       None [''.'', ''/usr/bin'', ''/usr/local/bin'', ''/opt/local/bin'']"

definition sex_keep :: "sex_args \<Rightarrow> float64 \<Rightarrow> sex_row \<Rightarrow> bool" where
  "sex_keep a maxerr d =
     (fgt (X_IMAGE d) (Fin (x_edge a)) \<and>
      flt (X_IMAGE d) (Fin (real (ncols (x_image a)) - x_edge a)) \<and>
      fgt (Y_IMAGE d) (Fin (x_edge a)) \<and>
      flt (Y_IMAGE d) (Fin (real (nrows (x_image a)) - x_edge a)) \<and>
      flt (MAGERR_APER d) maxerr \<and> fgt (FLUX_APER d) (Fin 0))"

definition sex_measurement :: "pix2world option \<Rightarrow> sex_row \<Rightarrow> measurement" where
  "sex_measurement w2 d =
     (let (ra, dec) = (case w2 of None \<Rightarrow> (Fin 0, Fin 0) | Some f \<Rightarrow> f 1 (X_IMAGE d, Y_IMAGE d))
      in \<lparr> m_x = fsub (X_IMAGE d) (Fin 1), m_y = fsub (Y_IMAGE d) (Fin 1),
           m_xerr = fsqrt (ERRX2_IMAGE d), m_yerr = fsqrt (ERRY2_IMAGE d),
           m_flux = FLUX_APER d, m_fluxerr = FLUXERR_APER d,
           m_mag = MAG_APER d, m_magerr = MAGERR_APER d,
           m_flags = (if IMAFLAGS_ISO d > 0 then FLAGS d OR 256 else FLAGS d),
           m_ra = ra, m_dec = dec, m_bg = BACKGROUND d, m_fwhm = FWHM_IMAGE d,
           m_a = A_IMAGE d, m_b = B_IMAGE d, m_theta = THETA_IMAGE d \<rparr>)"

text \<open>The table of lines 242 to 278, built when the command succeeded.\<close>

definition sex_table :: "sex_env \<Rightarrow> sex_args \<Rightarrow> py_error + obj_table" where
  "sex_table env a =
     (case py_inverse (x_sn a) of
        Inl e \<Rightarrow> Inl e
      | Inr maxerr \<Rightarrow>
          (let w2 = (case x_wcs a of
                       Some f \<Rightarrow> Some f
                     | None \<Rightarrow> (case x_header a of None \<Rightarrow> None | Some h \<Rightarrow> Some (header_WCS env h)))
           in Inr \<lparr> rows = sort_flux_reverse
                              (map (sex_measurement w2) (filter (sex_keep a maxerr) (catalogue env))),
                    meta_aper = x_aper a, meta_bkgann = None \<rparr>))"

text \<open>
  What the function returns: \<^verbatim>\<open>None\<close> (no binary, or the command failed), the table, or
  with check images the list that starts with the table (or \<^verbatim>\<open>None\<close>).
\<close>

datatype sex_return = ReturnsNone | ReturnsTable obj_table | ReturnsList "obj_table option" "image list"

definition get_objects_sextractor :: "sex_env \<Rightarrow> sex_args \<Rightarrow> py_error + sex_return" where
  "get_objects_sextractor env a =
     (case find_binary env of
        None \<Rightarrow> Inr ReturnsNone
      | Some binname \<Rightarrow>
          (case (if os_system env binname a = 0
                 then (case sex_table env a of Inl e \<Rightarrow> Inl e | Inr t \<Rightarrow> Inr (Some t))
                 else Inr None) of
             Inl e \<Rightarrow> Inl e
           | Inr obj \<Rightarrow>
               if x_checkimages a \<noteq> [] then Inr (ReturnsList obj (map (checkimage env) (x_checkimages a)))
               else (case obj of None \<Rightarrow> Inr ReturnsNone | Some t \<Rightarrow> Inr (ReturnsTable t))))"

text \<open>The table in whatever the function returned, if there is one.\<close>

fun returned_table :: "py_error + sex_return \<Rightarrow> obj_table option" where
  "returned_table (Inr (ReturnsTable t)) = Some t"
| "returned_table (Inr (ReturnsList obj _)) = obj"
| "returned_table _ = None"

section \<open>Properties of \<^verbatim>\<open>get_background\<close>\<close>

lemma load_back_rms: "load_name [(''image'', a), (''back'', b), (''backrms'', c)] ''back_rms'' = Inl (NameError ''back_rms'')"
  by (simp add: load_name_def module_globals_def)

text \<open>
  Claim C9 says that \<^verbatim>\<open>get_background\<close> with \<^verbatim>\<open>get_rms=True\<close> returns the pair of
  maps and never raises. The code binds \<^verbatim>\<open>backrms\<close> and returns \<^verbatim>\<open>back_rms\<close>: on a
  one-pixel image with the flat estimator the call raises \<^verbatim>\<open>NameError\<close>, and so it
  does whenever the estimator itself returns.
\<close>

theorem C9_get_rms_raises_NameError:
  "get_background flat_estimators [[Fin 100]] None ''sep'' 128 True = Inl (NameError ''back_rms'')"
  by (simp add: get_background_def flat_estimators_def load_name_def module_globals_def)

lemma get_background_get_rms_never_returns:
  "get_background est img msk method sz True \<noteq> Inr r"
  by (simp add: get_background_def load_back_rms Let_def split: sum.splits prod.splits)

lemma get_background_no_rms_returns:
  "get_background flat_estimators [[Fin 100]] None ''sep'' 128 False = Inr (Back (Array [[Fin 100]]))"
  by (simp add: get_background_def flat_estimators_def load_name_def)

section \<open>Properties of the zero-point fit\<close>

lemma sequence_err_map_Inr: "sequence_err (map Inr vs) = Inr vs"
  by (induction vs) simp_all

lemma sequence_err_Inr_D: "sequence_err xs = Inr vs \<Longrightarrow> xs = map Inr vs"
proof (induction xs arbitrary: vs rule: sequence_err.induct)
  case 1
  then show ?case by simp
next
  case (2 e uu)
  then show ?case by simp
next
  case (3 v rest)
  then show ?case by (auto split: sum.splits)
qed

lemma sequence_err_Inr: "sequence_err xs = Inr vs \<longleftrightarrow> xs = map Inr vs"
  using sequence_err_Inr_D sequence_err_map_Inr by blast

lemma bcast2_unit_left: "bcast2 f [c] xs = Inr (map (f c) xs)"
  by (cases xs rule: list.exhaust; cases "tl xs") (auto simp: bcast2_def)

lemma bcast2_same: "length xs = length ys \<Longrightarrow> bcast2 f xs ys = Inr (map2 f xs ys)"
  by (simp add: bcast2_def)

lemma bcast2_unit_right: "bcast2 f xs [c] = Inr (map (\<lambda>a. f a c) xs)"
  apply (cases xs; cases "tl xs") apply (auto simp: bcast2_def) done

lemma series_term_unit: "length x = length y \<Longrightarrow> series_term [Fin 1] x y i j = Inr (term_col x y i j)"
  by (simp add: series_term_def bcast2_unit_left bcast2_same term_col_def)

lemma make_series_unit:
  assumes "length x = length y"
  shows "make_series [Fin 1] x y order True = Inr (spatial_cols x y order)"
proof -
  have "concat (map (\<lambda>i. map (\<lambda>j. series_term [Fin 1] x y i j) [0..<Suc i]) [1..<Suc (nat order)])
      = map Inr (concat (map (\<lambda>i. map (\<lambda>j. term_col x y i j) [0..<Suc i]) [1..<Suc (nat order)]))"
    using assms by (simp add: series_term_unit map_concat comp_def del: upt_Suc)
  then show ?thesis
    unfolding make_series_def spatial_cols_def
    by (simp add: bcast2_unit_right sequence_err_map_Inr comp_def del: upt_Suc)
qed

lemma length_spatial_cols: "length (spatial_cols x y order) = length (spatial_cols x' y' order)"
  by (simp add: spatial_cols_def length_concat comp_def del: upt_Suc)

lemma spatial_cols_lengths: "length x = length y \<Longrightarrow> c \<in> set (spatial_cols x y order) \<Longrightarrow> length c = length x"
  by (auto simp: spatial_cols_def term_col_def simp del: upt_Suc)

lemma loop_heads_hd: "hd (heads (robust_loop n eng a l i)) = i \<and> heads (robust_loop n eng a l i) \<noteq> []"
  by (cases n) (auto simp: Let_def split: sum.splits)


lemma loop_passes:
  "passes (robust_loop n eng a l i) =
     length (filter (\<lambda>h. 3 \<le> count_true h) (heads (robust_loop n eng a l i)))"
proof (induction n arbitrary: i)
  case 0
  then show ?case by (auto split: sum.splits)
next
  case (Suc n)
  then show ?case by (cases "fit_pass eng a l i") (auto simp: Let_def)
qed

lemma loop_heads_later:
  "h \<in> set (tl (heads (robust_loop n eng a l i))) \<Longrightarrow> \<exists>zm. h = next_idx (threshold a) l zm"
proof (induction n arbitrary: i)
  case 0
  then show ?case by (auto split: sum.splits if_splits)
next
  case (Suc n)
  show ?case
  proof (cases "count_true i < 3")
    case True
    with Suc.prems show ?thesis by simp
  next
    case False
    show ?thesis
    proof (cases "fit_pass eng a l i")
      case (Inl e)
      with False Suc.prems show ?thesis by simp
    next
      case (Inr st)
      show ?thesis
      proof (cases "truthy (threshold a)")
        case False
        with Inr \<open>\<not> count_true i < 3\<close> Suc.prems show ?thesis by simp
      next
        case True
        with Inr \<open>\<not> count_true i < 3\<close> Suc.prems
        have "h \<in> set (heads (robust_loop n eng a l (s_idx st)))" by (simp add: Let_def)
        then have "h = s_idx st \<or> h \<in> set (tl (heads (robust_loop n eng a l (s_idx st))))"
          using loop_heads_hd[of n eng a l "s_idx st"]
          by (cases "heads (robust_loop n eng a l (s_idx st))") auto
        moreover have "\<exists>zm. s_idx st = next_idx (threshold a) l zm"
          using Inr by (auto simp: fit_pass_def Let_def split: sum.splits)
        ultimately show ?thesis using Suc.IH by blast
      qed
    qed
  qed
qed


lemma take_idx_Inr: "take_idx xs js = Inr ys \<Longrightarrow> length ys = length js"
  by (auto simp: take_idx_def split: if_splits)


lemma length_rows_of_cols:
  "list_all (\<lambda>d. length d = length c) cs \<Longrightarrow> length (rows_of_cols (c # cs)) = length c"
proof (induction cs arbitrary: c)
  case Nil
  then show ?case by simp
next
  case (Cons d ds)
  then have "list_all (\<lambda>e. length e = length d) ds" by (simp add: list_all_iff)
  from Cons.IH[OF this] Cons.prems show ?case by simp
qed

lemma vstack_T_Inr: "vstack_T cols = Inr X \<Longrightarrow> cols \<noteq> [] \<and> length X = length (hd cols)"
  by (auto simp: vstack_T_def length_rows_of_cols split: list.splits if_splits)

lemma vstack_T_ok:
  "cols \<noteq> [] \<Longrightarrow> \<forall>c \<in> set cols. length c = n \<Longrightarrow> \<exists>X. vstack_T cols = Inr X \<and> length X = n"
  by (cases cols) (auto simp: vstack_T_def length_rows_of_cols list_all_iff)

lemma series_zero_col:
  "length mul = length x \<Longrightarrow> make_series mul x y 0 True = Inr [map2 fmul (map (\<lambda>_. Fin 1) x) mul]"
  by (simp add: make_series_def bcast2_same)

lemma centred_Inr:
  "centred a oi n = Inr (x0, y0, x, y) \<Longrightarrow> length oi = n \<Longrightarrow> length x = n \<and> length y = n"
  by (auto simp: centred_def dest: take_idx_Inr split: option.splits sum.splits)

lemma regressors_Inr:
  assumes "regressors a ci x y n = Inr (cols, cc)" "length x = n" "length y = n" "length ci = n"
  shows "cols \<noteq> [] \<and> (\<forall>c \<in> set cols. length c = n) \<and> length cc = n \<and>
         length cols = n_regressors a"
proof -
  have ms: "make_series [Fin 1] x y (spatial_order a) True = Inr (spatial_cols x y (spatial_order a))"
    using assms by (simp add: make_series_unit)
  have one: "make_series [Fin 1] [Fin 1] [Fin 1] (spatial_order a) True
               = Inr (spatial_cols [Fin 1] [Fin 1] (spatial_order a))"
    by (simp add: make_series_unit)
  have len: "length (spatial_cols x y (spatial_order a)) = length (spatial_cols [Fin 1] [Fin 1] (spatial_order a))"
    by (rule length_spatial_cols)
  have sp: "\<forall>c \<in> set (spatial_cols x y (spatial_order a)). length c = n"
    using assms spatial_cols_lengths[of x y] by auto
  have ne: "spatial_cols x y (spatial_order a) \<noteq> []" by (simp add: spatial_cols_def)
  show ?thesis
  proof (cases "cat_color a")
    case None
    with assms ms have "cols = spatial_cols x y (spatial_order a)" "cc = replicate n (Fin 0)"
      by (auto simp: regressors_def)
    then show ?thesis using sp ne len one None by (simp add: n_regressors_def n_spatial_def)
  next
    case (Some c0)
    with assms ms obtain gc where gc: "take_idx c0 ci = Inr gc"
      and r: "(case make_series (filled gc) x y 0 True of Inl e \<Rightarrow> Inl e
                | Inr ccols \<Rightarrow> Inr (spatial_cols x y (spatial_order a) @ ccols, filled gc)) = Inr (cols, cc)"
      by (auto simp: regressors_def split: sum.splits)
    have lg: "length (filled gc) = n" using take_idx_Inr[OF gc] assms by (simp add: filled_def)
    then have "make_series (filled gc) x y 0 True = Inr [map2 fmul (map (\<lambda>_. Fin 1) x) (filled gc)]"
      using assms by (simp add: series_zero_col)
    with r have "cols = spatial_cols x y (spatial_order a) @ [map2 fmul (map (\<lambda>_. Fin 1) x) (filled gc)]"
      "cc = filled gc" by auto
    then show ?thesis using sp ne len one Some lg assms by (auto simp: n_regressors_def n_spatial_def)
  qed
qed

lemma prepare_Inr:
  assumes "prepare eng a = Inr l"
  shows "length (l_X l) = length (l_idx0 l) \<and> length (l_zero l) = length (l_idx0 l) \<and>
         length (l_zero_err l) = length (l_idx0 l) \<and> length (l_weights l) = length (l_idx0 l) \<and>
         length (l_omag l) = length (l_idx0 l) \<and>
         length (l_idx0 l) = length (htm_match eng (obj_ra a) (obj_dec a) (cat_ra a) (cat_dec a) (sr a)) \<and>
         l_ncols l = n_regressors a"
proof -
  define m where "m = htm_match eng (obj_ra a) (obj_dec a) (cat_ra a) (cat_dec a) (sr a)"
  define oi where "oi = map fst m"
  define ci where "ci = map (\<lambda>t. fst (snd t)) m"
  from assms obtain om ome ofl cm0 cme x0 y0 x y cols cc X where
    om: "take_idx (obj_mag a) oi = Inr om" and
    ome: "take_idx (obj_magerr a) oi = Inr ome" and
    ofl: "take_idx (obj_flags a) oi = Inr ofl" and
    cm0: "take_idx (cat_mag a) ci = Inr cm0" and
    cme: "(case cat_magerr a of None \<Rightarrow> Inr (map (\<lambda>_. Fin 0) cm0)
           | Some ce \<Rightarrow> (case take_idx ce ci of Inl e \<Rightarrow> Inl e | Inr g \<Rightarrow> Inr (filled g))) = Inr cme" and
    cen: "centred a oi (length om) = Inr (x0, y0, x, y)" and
    reg: "regressors a ci x y (length cm0) = Inr (cols, cc)" and
    vst: "vstack_T cols = Inr X" and
    l: "l_X l = X" "l_ncols l = length cols"
       "l_zero l = map2 fsub (filled cm0) om" "l_zero_err l = map2 fhypot ome cme"
       "l_weights l = map (\<lambda>e. fdiv (Fin 1) (fpow e 2)) (map2 fhypot ome cme)"
       "l_omag l = om"
       "l_idx0 l = (case cat_color a of
            None \<Rightarrow> map (\<lambda>(vom, vome, vcm, vcme, vfl).
                            isfinite vom \<and> isfinite vome \<and> isfinite vcm \<and> isfinite vcme \<and> vfl = 0)
                         (zip om (zip ome (zip (filled cm0) (zip cme ofl))))
          | Some _ \<Rightarrow> map2 (\<lambda>b c. b \<and> isfinite c)
               (map (\<lambda>(vom, vome, vcm, vcme, vfl).
                            isfinite vom \<and> isfinite vome \<and> isfinite vcm \<and> isfinite vcme \<and> vfl = 0)
                         (zip om (zip ome (zip (filled cm0) (zip cme ofl))))) cc)"
    unfolding prepare_def Let_def m_def[symmetric] oi_def[symmetric] ci_def[symmetric]
    by (auto split: sum.splits prod.splits)
  have n: "length om = length m" "length ome = length m" "length ofl = length m" "length cm0 = length m"
    using take_idx_Inr[OF om] take_idx_Inr[OF ome] take_idx_Inr[OF ofl] take_idx_Inr[OF cm0]
    by (simp_all add: oi_def ci_def)
  have ncme: "length cme = length m"
    using cme n by (auto simp: filled_def ci_def dest: take_idx_Inr split: option.splits sum.splits)
  have xy: "length x = length m" "length y = length m"
    using centred_Inr[OF cen] n by (simp_all add: oi_def)
  have r: "cols \<noteq> [] \<and> (\<forall>c \<in> set cols. length c = length m) \<and> length cc = length m \<and>
         length cols = n_regressors a"
    using regressors_Inr[OF reg] xy n by (simp add: ci_def)
  have nX: "length X = length m"
    using vstack_T_Inr[OF vst] r by (cases cols) auto
  have ni: "length (l_idx0 l) = length m"
    using l(7) n ncme r by (simp add: filled_def split: option.splits)
  show ?thesis
    using l n ncme r nX ni by (simp add: m_def filled_def)
qed


lemma n_spatial_cols: "n_spatial order = length (spatial_cols x y order)"
  using length_spatial_cols[of "[Fin 1]" "[Fin 1]" order x y]
  by (simp add: n_spatial_def make_series_unit)

lemma make_series_length:
  assumes "make_series mul x y order True = Inr cols"
  shows "length cols = n_spatial order"
proof -
  have "length cols = length (map Inr cols :: (py_error + float64 list) list)" by simp
  also have "map Inr cols = [bcast2 fmul (map (\<lambda>_. Fin 1) x) mul] @
        concat (map (\<lambda>i. map (\<lambda>j. series_term mul x y i j) [0..<Suc i]) [1..<Suc (nat order)])"
    using assms unfolding make_series_def sequence_err_Inr by simp
  also have "length \<dots> = length (spatial_cols x y order)"
    by (simp add: spatial_cols_def length_concat comp_def del: upt_Suc)
  finally show ?thesis by (simp add: n_spatial_cols[of order x y])
qed

lemma fmul_one [simp]: "fmul (Fin 1) c = c"
  by (cases c) (auto simp: inf_of_sign_def)

lemma fadd_zero [simp]: "fadd (Fin 0) c = c"
  by (cases c) auto

lemma fsum_single [simp]: "fsum [c] = c"
  by (simp add: fsum_def)




lemma zero_fn_ok:
  assumes "case (xx, yy) of (Some vx, Some vy) \<Rightarrow> length vx = length vy | _ \<Rightarrow> True"
    and "n_spatial (z_order cl) \<le> length (z_params cl)"
  shows "\<exists>v. zero_fn cl xx yy = Inr v"
proof -
  obtain x y where xy: "(case (xx, yy) of
                      (Some vx, Some vy) \<Rightarrow> (map (\<lambda>v. fsub v (z_x0 cl)) vx, map (\<lambda>v. fsub v (z_y0 cl)) vy)
                    | _ \<Rightarrow> (replicate (z_n cl) (Fin 0), replicate (z_n cl) (Fin 0))) = (x, y)"
    by (cases "(case (xx, yy) of
                      (Some vx, Some vy) \<Rightarrow> (map (\<lambda>v. fsub v (z_x0 cl)) vx, map (\<lambda>v. fsub v (z_y0 cl)) vy)
                    | _ \<Rightarrow> (replicate (z_n cl) (Fin 0), replicate (z_n cl) (Fin 0)))") auto
  then have len: "length x = length y" using assms(1) by (auto split: option.splits)
  have ms: "make_series [Fin 1] x y (z_order cl) True = Inr (spatial_cols x y (z_order cl))"
    using len by (rule make_series_unit)
  have "spatial_cols x y (z_order cl) \<noteq> []" by (simp add: spatial_cols_def)
  moreover have "\<forall>c \<in> set (spatial_cols x y (z_order cl)). length c = length x"
    using spatial_cols_lengths[OF len] by blast
  ultimately obtain X where X: "vstack_T (spatial_cols x y (z_order cl)) = Inr X"
    using vstack_T_ok by blast
  have "length (take (length (spatial_cols x y (z_order cl))) (z_params cl)) = length (spatial_cols x y (z_order cl))"
    using assms(2) n_spatial_cols[of "z_order cl" x y] by simp
  then show ?thesis
    unfolding zero_fn_def xy using ms X by (simp add: X_dot_def)
qed

lemma export_model_ok:
  assumes "xy_same_length a" and "length (s_params st) = n_regressors a"
  shows "\<exists>b. export_model a l st = Inr b \<and> idx b = s_idx st \<and> idx0 b = l_idx0 l \<and>
             z_params (zero_fn_closure b) = s_params st \<and> z_order (zero_fn_closure b) = spatial_order a"
proof -
  have ct: "\<exists>c. get_color_term a (s_params st) = Inr c"
    using assms(2)
    by (cases "cat_color a")
       (auto simp: get_color_term_def n_regressors_def make_series_unit n_spatial_cols[of _ "[Fin 1]" "[Fin 1]"])
  let ?cl = "\<lparr> z_x0 = l_x0 l, z_y0 = l_y0 l, z_n = length (l_omag l),
                 z_order = spatial_order a, z_params = s_params st \<rparr>"
  have "\<exists>v. zero_fn ?cl (obj_x a) (obj_y a) = Inr v"
    using assms by (intro zero_fn_ok) (auto simp: xy_same_length_def n_regressors_def)
  with ct show ?thesis by (auto simp: export_model_def Let_def)
qed

lemma six_prepare: "prepare exact_engines six_args = Inr six_locals"
  by (simp add: prepare_def exact_engines_def six_args_def take_idx_def filled_def six_locals_def
      centred_def regressors_def make_series_def bcast2_def vstack_T_def Let_def fsub_def numeral_2_eq_2)


lemmas fit_eval = fit_pass_def exact_engines_def six_args_def six_locals_def select_def X_dot_def
  bmul_def fsum_def next_idx_def truthy_def fsub_def Let_def inf_of_sign_def

lemma six_pass0: "fit_pass exact_engines six_args six_locals [True, True, True, True, True, True]
   = Inr \<lparr> s_params = [Fin (4/3)], s_zero_model = [Fin (4/3), Fin (4/3), Fin (4/3), Fin (4/3), Fin (4/3), Fin (4/3)],
           s_idx = [True, True, True, True, False, False] \<rparr>"
  by (simp add: fit_eval)

lemma six_pass1: "fit_pass exact_engines six_args six_locals [True, True, True, True, False, False]
   = Inr \<lparr> s_params = [Fin 0], s_zero_model = [Fin 0, Fin 0, Fin 0, Fin 0, Fin 0, Fin 0],
           s_idx = [True, True, True, True, True, False] \<rparr>"
  by (simp add: fit_eval)

lemma six_pass2: "fit_pass exact_engines six_args six_locals [True, True, True, True, True, False]
   = Inr \<lparr> s_params = [Fin (-2/5)], s_zero_model = [Fin (-2/5), Fin (-2/5), Fin (-2/5), Fin (-2/5), Fin (-2/5), Fin (-2/5)],
           s_idx = [True, True, True, True, True, False] \<rparr>"
  by (simp add: fit_eval)

lemma four_Suc: "(4::nat) = Suc (Suc (Suc (Suc 0)))"
  by simp

lemma six_trace:
  "match_trace exact_engines six_args =
     \<lparr> heads = [[True, True, True, True, True, True], [True, True, True, True, False, False],
                 [True, True, True, True, True, False], [True, True, True, True, True, False],
                 [True, True, True, True, True, False]],
       passes = 5,
       outcome = Inr (Some \<lparr> s_params = [Fin (-2/5)],
           s_zero_model = [Fin (-2/5), Fin (-2/5), Fin (-2/5), Fin (-2/5), Fin (-2/5), Fin (-2/5)],
           s_idx = [True, True, True, True, True, False] \<rparr>) \<rparr>"
proof -
  have i0: "l_idx0 six_locals = [True, True, True, True, True, True]" by (simp add: six_locals_def)
  have thr: "truthy (threshold six_args)" by (simp add: six_args_def truthy_def)
  show ?thesis
    unfolding match_trace_def six_prepare four_Suc
    by (simp add: i0 thr six_pass0 six_pass1 six_pass2 count_true_def Let_def)
qed


lemma count_true_nil [simp]: "count_true [] = 0"
  by (simp add: count_true_def)






lemma count_true_masked:
  "count_true (map (\<lambda>(b, r). b \<and> P r) (zip bs rs)) \<le> count_true bs"
proof (induction bs arbitrary: rs)
  case Nil
  then show ?case by simp
next
  case (Cons b bs)
  show ?case
  proof (cases rs)
    case Nil
    then show ?thesis by (simp add: count_true_def)
  next
    case (Cons r rs')
    then show ?thesis using Cons.IH[of rs'] by (simp add: count_true_def)
  qed
qed

lemma subset_masked:
  "length rs = length bs \<Longrightarrow> list_all2 (\<lambda>p q. p \<longrightarrow> q) (map (\<lambda>(b, r). b \<and> P r) (zip bs rs)) bs"
  by (induction bs rs rule: list_induct2') auto

lemma next_idx_subset:
  assumes "length (l_zero l) = length (l_idx0 l)" "length (l_zero_err l) = length (l_idx0 l)"
    "length zm = length (l_idx0 l)"
  shows "list_all2 (\<lambda>p q. p \<longrightarrow> q) (next_idx thr l zm) (l_idx0 l) \<and>
         count_true (next_idx thr l zm) \<le> count_true (l_idx0 l)"
proof (cases "truthy thr")
  case False
  then show ?thesis by (simp add: next_idx_def list_all2_same)
next
  case True
  let ?rs = "zip (l_zero l) (zip zm (l_zero_err l))"
  have e: "next_idx thr l zm =
        map (\<lambda>(b, r). b \<and> (case r of (z, m, e) \<Rightarrow> flt (fabs (fdiv (fsub z m) e)) thr)) (zip (l_idx0 l) ?rs)"
    using True by (simp add: next_idx_def split_def)
  have "length ?rs = length (l_idx0 l)" using assms by simp
  from subset_masked[OF this] count_true_masked[of _ "l_idx0 l" ?rs] show ?thesis
    unfolding e by blast
qed

lemma X_dot_length: "X_dot p X ps = Inr zm \<Longrightarrow> length zm = length X"
  by (auto simp: X_dot_def split: if_splits)

lemma fit_pass_model:
  assumes "fit_pass eng a l i = Inr st"
  shows "length (s_zero_model st) = length (l_X l) \<and>
         s_idx st = next_idx (threshold a) l (s_zero_model st)"
proof -
  let ?C = "if robust a then RLM_fit eng (select i (l_zero l)) (select i (l_X l))
            else WLS_fit eng (select i (l_zero l)) (select i (l_X l)) (select i (l_weights l))"
  from assms obtain zm where zm: "X_dot (l_ncols l) (l_X l) ?C = Inr zm"
    and st: "st = \<lparr> s_params = ?C, s_zero_model = zm, s_idx = next_idx (threshold a) l zm \<rparr>"
    unfolding fit_pass_def Let_def by (cases "X_dot (l_ncols l) (l_X l) ?C") auto
  from X_dot_length[OF zm] st show ?thesis by simp
qed

lemma loop_heads_later_len:
  "h \<in> set (tl (heads (robust_loop n eng a l i))) \<Longrightarrow>
     \<exists>zm. length zm = length (l_X l) \<and> h = next_idx (threshold a) l zm"
proof (induction n arbitrary: i)
  case 0
  then show ?case by (auto split: sum.splits if_splits)
next
  case (Suc n)
  show ?case
  proof (cases "fit_pass eng a l i")
    case (Inl e)
    with Suc.prems show ?thesis by (simp split: if_splits)
  next
    case (Inr st)
    show ?thesis
    proof (cases "\<not> count_true i < 3 \<and> truthy (threshold a)")
      case False
      with Inr Suc.prems show ?thesis by (auto split: if_splits)
    next
      case True
      with Inr Suc.prems
      have "h \<in> set (heads (robust_loop n eng a l (s_idx st)))" by (simp add: Let_def)
      then have "h = s_idx st \<or> h \<in> set (tl (heads (robust_loop n eng a l (s_idx st))))"
        using loop_heads_hd[of n eng a l "s_idx st"]
        by (cases "heads (robust_loop n eng a l (s_idx st))") auto
      moreover have "\<exists>zm. length zm = length (l_X l) \<and> s_idx st = next_idx (threshold a) l zm"
        using fit_pass_model[OF Inr] by blast
      ultimately show ?thesis using Suc.IH by blast
    qed
  qed
qed

text \<open>
  Claim C3, as amended: at every round of the loop the active mask is a subset of the base
  mask \<^verbatim>\<open>idx0\<close> of the same length, the first round starts from \<^verbatim>\<open>idx0\<close> itself, and so
  the number of active points never exceeds that of \<^verbatim>\<open>idx0\<close>. (The count is not
  monotone from one round to the next: line 386 restarts from \<^verbatim>\<open>idx0\<close> and line 388
  tests every base point against the new model, so a point rejected in one round can
  come back in the next.)
\<close>

theorem C3_active_mask_within_idx0:
  assumes "prepare eng a = Inr l"
  shows "hd (heads (match_trace eng a)) = l_idx0 l \<and>
         (\<forall>h \<in> set (heads (match_trace eng a)).
            list_all2 (\<lambda>p q. p \<longrightarrow> q) h (l_idx0 l) \<and> count_true h \<le> count_true (l_idx0 l))"
proof -
  let ?hs = "heads (robust_loop 4 eng a l (l_idx0 l))"
  have hd: "hd ?hs = l_idx0 l" "?hs \<noteq> []" using loop_heads_hd by auto
  have len: "length (l_zero l) = length (l_idx0 l)" "length (l_zero_err l) = length (l_idx0 l)"
    "length (l_X l) = length (l_idx0 l)"
    using prepare_Inr[OF assms] by auto
  have "list_all2 (\<lambda>p q. p \<longrightarrow> q) h (l_idx0 l) \<and> count_true h \<le> count_true (l_idx0 l)"
    if "h \<in> set ?hs" for h
  proof -
    from that hd have "h = l_idx0 l \<or> h \<in> set (tl ?hs)" by (cases ?hs) auto
    then show ?thesis
    proof
      assume "h = l_idx0 l"
      then show ?thesis by (simp add: list_all2_same)
    next
      assume "h \<in> set (tl ?hs)"
      from loop_heads_later_len[OF this] obtain zm where
        "length zm = length (l_X l)" "h = next_idx (threshold a) l zm" by blast
      then show ?thesis using next_idx_subset[of l zm "threshold a"] len by simp
    qed
  qed
  then show ?thesis using hd assms by (simp add: match_trace_def)
qed

text \<open>
  The amended claim C3 on the six stars.
\<close>

theorem C3_witness:
  "prepare exact_engines six_args = Inr six_locals \<and>
   hd (heads (match_trace exact_engines six_args)) = l_idx0 six_locals \<and>
   list_all (\<lambda>h. list_all2 (\<lambda>p q. p \<longrightarrow> q) h (l_idx0 six_locals) \<and>
                 count_true h \<le> count_true (l_idx0 six_locals))
     (heads (match_trace exact_engines six_args))"
  using C3_active_mask_within_idx0[OF six_prepare] six_prepare unfolding list_all_iff by blast

text \<open>
  Claim C3 as stated fails: with threshold 3 the six stars give active masks of
  6, 4, 5, 5 and 5 points. The first fit (mean 4/3) rejects the stars at -2 and 10, the
  second (mean 0) takes the star at -2 back.
\<close>

theorem C3_count_rises_counterexample:
  "flt (Fin 0) (threshold six_args) \<and>
   map count_true (heads (match_trace exact_engines six_args)) = [6, 4, 5, 5, 5]"
  by (simp add: six_trace count_true_def) (simp add: six_args_def)







lemma zero_fn_unfold:
  "zero_fn cl xx yy =
     (case make_series [Fin 1] (fst (zero_fn_xy cl xx yy)) (snd (zero_fn_xy cl xx yy)) (z_order cl) True of
        Inl e \<Rightarrow> Inl e
      | Inr cols \<Rightarrow>
          (case vstack_T cols of
             Inl e \<Rightarrow> Inl e
           | Inr X \<Rightarrow> X_dot (length cols) X (take (length cols) (z_params cl))))"
  by (simp add: zero_fn_def zero_fn_xy_def Let_def case_prod_beta)

lemma zero_fn_xy_params [simp]: "zero_fn_xy (cl\<lparr>z_params := ps\<rparr>) xx yy = zero_fn_xy cl xx yy"
  by (simp add: zero_fn_xy_def split: option.splits)

lemma length_zero_fn_xy:
  "length (fst (zero_fn_xy cl xx yy)) = (case (xx, yy) of (Some vx, Some vy) \<Rightarrow> length vx | _ \<Rightarrow> z_n cl)"
  by (simp add: zero_fn_xy_def split: option.splits)

lemma zero_fn_prefix:
  assumes "length pos = n_spatial (z_order cl)"
  shows "zero_fn (cl\<lparr>z_params := pos @ rest\<rparr>) xx yy = zero_fn (cl\<lparr>z_params := pos\<rparr>) xx yy"
proof (cases "make_series [Fin 1] (fst (zero_fn_xy cl xx yy)) (snd (zero_fn_xy cl xx yy)) (z_order cl) True")
  case (Inl e)
  then show ?thesis by (simp add: zero_fn_unfold)
next
  case (Inr cols)
  from make_series_length[OF Inr] assms have "length cols = length pos" by simp
  then show ?thesis using Inr by (simp add: zero_fn_unfold split: sum.splits)
qed

lemma series_order_zero: "make_series [Fin 1] x y 0 True = Inr [map (\<lambda>_. Fin 1) x]"
  by (simp add: make_series_def bcast2_unit_right comp_def)

lemma vstack_single: "vstack_T [c] = Inr (map (\<lambda>v. [v]) c)"
  by (simp add: vstack_T_def)

lemma X_dot_ones: "X_dot (Suc 0) (map (\<lambda>v. [v]) (map (\<lambda>_. Fin 1) x)) [c] = Inr (replicate (length x) c)"
  by (simp add: X_dot_def bmul_def comp_def map_replicate_const)

lemma zero_fn_constant:
  assumes "z_order cl = 0" "z_params cl = c # cs"
  shows "zero_fn cl xx yy =
     Inr (replicate (case (xx, yy) of (Some vx, Some vy) \<Rightarrow> length vx | _ \<Rightarrow> z_n cl) c)"
proof -
  let ?x = "fst (zero_fn_xy cl xx yy)"
  have "zero_fn cl xx yy = X_dot (Suc 0) (map (\<lambda>v. [v]) (map (\<lambda>_. Fin 1) ?x)) [c]"
    by (simp add: zero_fn_unfold[of cl xx yy] assms series_order_zero vstack_single)
  also have "\<dots> = Inr (replicate (length ?x) c)" by (rule X_dot_ones)
  finally show ?thesis unfolding length_zero_fn_xy .
qed

text \<open>
  Claim C5: \<^verbatim>\<open>zero_fn\<close> reads only the positional coefficients (a coefficient after
  them, the colour term, does not change its value), and for \<^verbatim>\<open>spatial_order = 0\<close> it
  returns the fitted constant term at every position, for any closure and for the one
  \<^verbatim>\<open>match\<close> returns.
\<close>

theorem C5_zero_fn_positional_only:
  "(length pos = n_spatial (z_order cl) \<longrightarrow>
      zero_fn (cl\<lparr>z_params := pos @ rest\<rparr>) xx yy = zero_fn (cl\<lparr>z_params := pos\<rparr>) xx yy) \<and>
   (z_order cl = 0 \<and> z_params cl \<noteq> [] \<longrightarrow>
      zero_fn cl (Some xs) (Some ys) = Inr (replicate (length xs) (hd (z_params cl)))) \<and>
   (match eng a = Inr (Some b) \<and> spatial_order a = 0 \<and> z_params (zero_fn_closure b) \<noteq> [] \<longrightarrow>
      zero_fn (zero_fn_closure b) (Some xs) (Some ys) =
        Inr (replicate (length xs) (hd (z_params (zero_fn_closure b)))))"
proof (intro conjI impI)
  assume "length pos = n_spatial (z_order cl)"
  then show "zero_fn (cl\<lparr>z_params := pos @ rest\<rparr>) xx yy = zero_fn (cl\<lparr>z_params := pos\<rparr>) xx yy"
    by (rule zero_fn_prefix)
next
  assume "z_order cl = 0 \<and> z_params cl \<noteq> []"
  then obtain c cs where "z_order cl = 0" "z_params cl = c # cs" by (cases "z_params cl") auto
  from zero_fn_constant[OF this, of "Some xs" "Some ys"] \<open>z_params cl = c # cs\<close>
  show "zero_fn cl (Some xs) (Some ys) = Inr (replicate (length xs) (hd (z_params cl)))" by simp
next
  assume h: "match eng a = Inr (Some b) \<and> spatial_order a = 0 \<and> z_params (zero_fn_closure b) \<noteq> []"
  then have "z_order (zero_fn_closure b) = 0"
    by (auto simp: match_def export_model_def Let_def split: sum.splits option.splits)
  moreover obtain c cs where "z_params (zero_fn_closure b) = c # cs"
    using h by (cases "z_params (zero_fn_closure b)") auto
  ultimately show "zero_fn (zero_fn_closure b) (Some xs) (Some ys) =
        Inr (replicate (length xs) (hd (z_params (zero_fn_closure b))))"
    using zero_fn_constant[of "zero_fn_closure b" c cs "Some xs" "Some ys"] by simp
qed

lemma six_match:
  "\<exists>b. match exact_engines six_args = Inr (Some b) \<and> z_params (zero_fn_closure b) = [Fin (-2/5)]"
proof -
  have "outcome (robust_loop 4 exact_engines six_args six_locals (l_idx0 six_locals)) = Inr (Some \<lparr> s_params = [Fin (-2/5)],
           s_zero_model = [Fin (-2/5), Fin (-2/5), Fin (-2/5), Fin (-2/5), Fin (-2/5), Fin (-2/5)],
           s_idx = [True, True, True, True, True, False] \<rparr>)"
    using six_trace by (simp add: match_trace_def six_prepare)
  moreover have "xy_same_length six_args" by (simp add: xy_same_length_def six_args_def)
  moreover have "n_regressors six_args = 1"
    by (simp add: n_regressors_def n_spatial_def six_args_def make_series_def bcast2_def)
  ultimately show ?thesis
    using export_model_ok[of six_args "\<lparr> s_params = [Fin (-2/5)],
           s_zero_model = [Fin (-2/5), Fin (-2/5), Fin (-2/5), Fin (-2/5), Fin (-2/5), Fin (-2/5)],
           s_idx = [True, True, True, True, True, False] \<rparr>" six_locals]
    by (auto simp: match_def six_prepare)
qed

text \<open>
  Claim C5 on a constant surface of zero point 25 with a colour coefficient 7, and on the surface fitted for the six stars.
\<close>

theorem C5_witness:
  "length [Fin 25] = n_spatial (z_order offset_closure) \<and>
   zero_fn (offset_closure\<lparr>z_params := [Fin 25] @ [Fin 7]\<rparr>) (Some [Fin 0, Fin 1000]) (Some [Fin 3, Fin 4])
     = zero_fn offset_closure (Some [Fin 0, Fin 1000]) (Some [Fin 3, Fin 4]) \<and>
   z_order offset_closure = 0 \<and> z_params offset_closure \<noteq> [] \<and>
   zero_fn offset_closure (Some [Fin 0, Fin 1000]) (Some [Fin 3, Fin 4]) = Inr [Fin 25, Fin 25] \<and>
   (\<exists>b. match exact_engines six_args = Inr (Some b) \<and> spatial_order six_args = 0 \<and>
        zero_fn (zero_fn_closure b) (Some [Fin 0, Fin 1000]) (Some [Fin 3, Fin 4]) = Inr [Fin (-2/5), Fin (-2/5)])"
proof -
  have n: "length [Fin 25] = n_spatial (z_order offset_closure)"
    by (simp add: offset_closure_def n_spatial_def make_series_def bcast2_def)
  have o: "z_order offset_closure = 0 \<and> z_params offset_closure \<noteq> []"
    by (simp add: offset_closure_def)
  have e: "offset_closure\<lparr>z_params := [Fin 25]\<rparr> = offset_closure" by (simp add: offset_closure_def)
  obtain b where b: "match exact_engines six_args = Inr (Some b)" "z_params (zero_fn_closure b) = [Fin (-2/5)]"
    using six_match by blast
  have s: "spatial_order six_args = 0" by (simp add: six_args_def)
  note t1 = C5_zero_fn_positional_only[of "[Fin 25]" offset_closure "[Fin 7]"
        "Some [Fin 0, Fin 1000]" "Some [Fin 3, Fin 4]" "[Fin 0, Fin 1000]" "[Fin 3, Fin 4]" exact_engines six_args b]
  from t1 n o e b s show ?thesis
    by (auto simp: offset_closure_def numeral_2_eq_2)
qed

end
